theory Spec2Isabelle
  imports Complex_Main "HOL-Library.Product_Lexorder" "HOL-Library.Multiset"
begin

section \<open>Gold stage of the market-intelligence pipeline: \<open>src/pipeline/process_gold.py\<close>\<close>

text \<open>
  The theory embeds the three blocks of \<open>GoldProcessor\<close>: \<open>extract_instruments\<close> (role
  candidates), \<open>extract_salaries\<close> (salary candidates) and \<open>match_opportunities\<close> (the
  linkage of both into opportunity rows).

  Conventions of the embedding.
  \<^item> A Python \<open>str\<close> is a \<open>string\<close>, one \<open>char\<close> per code point; the code points
    covered are those below 256 (ASCII and the Latin-1 supplement, which holds the
    accented letters of the Portuguese source constants). A non-ASCII code point is
    written \<open>CHR 0x..\<close>.
  \<^item> A data frame is the list of its rows, in row order; a row is a record.
  \<^item> The value of a salary is the decimal number read from the matched digits, a
    \<open>rat\<close>. The source holds it as a float; the only comparisons made on it are against
    700, 45000, 1900 and 2100, which are floats themselves, and rounding a decimal to the
    nearest float is monotone, so every comparison has the same outcome on the decimal.
  \<^item> Calls into libraries whose code is not part of the repository (the regular
    expression engine on the taxonomy and bond patterns, the salary pattern's matches,
    pandas' \<open>sort_values\<close>) are parameters of the functions that make them.
\<close>

subsection \<open>Rows of the intermediate and final tables\<close>

text \<open>A row of \<open>self.candidates\<close>, as appended at lines 153-158.\<close>

record role_candidate =
  role_doc_id :: string
  role_source_name :: string
  role_page_num :: int
  role_entity_type :: string
  role_canonical_value :: string
  role_raw_value :: string
  role_evidence_text :: string
  role_match_start_idx :: int
  role_confidence :: string

text \<open>A row of \<open>self.salaries\<close>, as appended at lines 232-237.\<close>

record salary_candidate =
  sal_doc_id :: string
  sal_source_name :: string
  sal_page_num :: int
  sal_entity_type :: string
  sal_canonical_value :: rat
  sal_raw_value :: string
  sal_evidence_text :: string
  sal_match_start_idx :: int
  sal_score :: int

datatype match_type = PAGE_PROXIMITY | NO_MATCH

text \<open>
  A row of \<open>self.opportunities\<close> (lines 313-333, and the column \<open>salario_formatado\<close> of
  line 343). Python's \<open>None\<close> in \<open>salario_valor\<close> and \<open>contexto_salario\<close> is \<open>None\<close>.
\<close>

record opportunity =
  doc_id :: string
  source_name :: string
  page_num :: int
  instrumento :: string
  contexto_instrumento :: string
  tipo_vinculo :: string
  salario_valor :: "rat option"
  salario_score :: int
  distancia_chars :: int
  contexto_salario :: "string option"
  match_type :: match_type
  salario_formatado :: string

subsection \<open>Text helpers\<close>

definition nao_informado :: string where
  "nao_informado = ''N'' @ [CHR 0xE3] @ ''o Informado''"

text \<open>
  \<open>unicodedata.normalize('NFKD', text).encode('ASCII', 'ignore')\<close> on one code point
  below 256: the ASCII code points of its compatibility decomposition. A code point that
  has no decomposition, or whose decomposition holds no ASCII code point, vanishes.
\<close>

definition nfkd_ascii :: "char \<Rightarrow> string" where
  "nfkd_ascii c = (let n = (of_char c :: nat) in
     if n < 0x80 then [c]
     else if n \<in> {0xA0, 0xA8, 0xAF, 0xB4, 0xB8} then '' ''
     else if n = 0xAA then ''a''
     else if n = 0xBA then ''o''
     else if n = 0xB2 then ''2''
     else if n = 0xB3 then ''3''
     else if n = 0xB9 then ''1''
     else if n = 0xBC then ''14''
     else if n = 0xBD then ''12''
     else if n = 0xBE then ''34''
     else if 0xC0 \<le> n \<and> n \<le> 0xC5 then ''A''
     else if n = 0xC7 then ''C''
     else if 0xC8 \<le> n \<and> n \<le> 0xCB then ''E''
     else if 0xCC \<le> n \<and> n \<le> 0xCF then ''I''
     else if n = 0xD1 then ''N''
     else if 0xD2 \<le> n \<and> n \<le> 0xD6 then ''O''
     else if 0xD9 \<le> n \<and> n \<le> 0xDC then ''U''
     else if n = 0xDD then ''Y''
     else if 0xE0 \<le> n \<and> n \<le> 0xE5 then ''a''
     else if n = 0xE7 then ''c''
     else if 0xE8 \<le> n \<and> n \<le> 0xEB then ''e''
     else if 0xEC \<le> n \<and> n \<le> 0xEF then ''i''
     else if n = 0xF1 then ''n''
     else if 0xF2 \<le> n \<and> n \<le> 0xF6 then ''o''
     else if 0xF9 \<le> n \<and> n \<le> 0xFC then ''u''
     else if n = 0xFD \<or> n = 0xFF then ''y''
     else [])"

text \<open>\<open>str.lower\<close> on an ASCII code point.\<close>

definition lower_ascii :: "char \<Rightarrow> char" where
  "lower_ascii c = (let n = (of_char c :: nat) in
     if 0x41 \<le> n \<and> n \<le> 0x5A then char_of (n + 0x20) else c)"

text \<open>\<open>_normalize_text\<close> (lines 76-78); the argument is always a \<open>str\<close> here.\<close>

definition normalize_text :: "string \<Rightarrow> string" where
  "normalize_text text = map lower_ascii (concat (map nfkd_ascii text))"

text \<open>
  \<open>\w\<close> of a \<open>str\<close> pattern: the alphanumeric code points and the underscore (below
  256: ASCII letters and digits, the Latin-1 letters, the superscript digits and the
  vulgar fractions).
\<close>

definition is_word_char :: "char \<Rightarrow> bool" where
  "is_word_char c = (let n = (of_char c :: nat) in
     (0x30 \<le> n \<and> n \<le> 0x39) \<or> (0x41 \<le> n \<and> n \<le> 0x5A) \<or> n = 0x5F \<or>
     (0x61 \<le> n \<and> n \<le> 0x7A) \<or>
     n \<in> {0xAA, 0xB2, 0xB3, 0xB5, 0xB9, 0xBA, 0xBC, 0xBD, 0xBE} \<or>
     (0xC0 \<le> n \<and> n \<le> 0xD6) \<or> (0xD8 \<le> n \<and> n \<le> 0xF6) \<or> 0xF8 \<le> n)"

text \<open>\<open>\b\<close> at offset \<open>i\<close>: exactly one of the two neighbours is a word character.\<close>

definition word_boundary :: "string \<Rightarrow> nat \<Rightarrow> bool" where
  "word_boundary text i =
     ((0 < i \<and> i \<le> length text \<and> is_word_char (text ! (i - 1))) \<noteq>
      (i < length text \<and> is_word_char (text ! i)))"

text \<open>
  \<open>re.search(r'\b' + re.escape(kw) + r'\b', text)\<close> (lines 82-83): the escaped keyword
  matches itself only, so the search succeeds when \<open>kw\<close> occurs at some offset with a
  word boundary on both sides.
\<close>

definition keyword_at :: "string \<Rightarrow> string \<Rightarrow> nat \<Rightarrow> bool" where
  "keyword_at text kw i =
     (word_boundary text i \<and> take (length kw) (drop i text) = kw \<and>
      word_boundary text (i + length kw))"

definition search_keyword :: "string \<Rightarrow> string \<Rightarrow> bool" where
  "search_keyword kw text = list_ex (keyword_at text kw) [0..<Suc (length text)]"

text \<open>\<open>_has_keyword_simple\<close> (lines 80-85).\<close>

definition has_keyword_simple :: "string \<Rightarrow> string list \<Rightarrow> bool" where
  "has_keyword_simple text keywords = list_ex (\<lambda>kw. search_keyword kw text) keywords"

text \<open>\<open>text[a:b]\<close> for offsets \<open>0 \<le> a\<close> and \<open>0 \<le> b\<close>.\<close>

definition slice :: "nat \<Rightarrow> nat \<Rightarrow> 'a list \<Rightarrow> 'a list" where
  "slice a b xs = take (b - a) (drop a xs)"

definition replace_char :: "char \<Rightarrow> char \<Rightarrow> string \<Rightarrow> string" where
  "replace_char a b s = map (\<lambda>c. if c = a then b else c) s"

text \<open>\<open>str.isspace\<close> on one code point below 256, and \<open>str.strip()\<close>.\<close>

definition is_space :: "char \<Rightarrow> bool" where
  "is_space c = (let n = (of_char c :: nat) in
     (0x09 \<le> n \<and> n \<le> 0x0D) \<or> (0x1C \<le> n \<and> n \<le> 0x20) \<or> n = 0x85 \<or> n = 0xA0)"

definition strip :: "string \<Rightarrow> string" where
  "strip s = rev (dropWhile is_space (rev (dropWhile is_space s)))"

text \<open>The evidence window: \<open>text[ctx_start:ctx_end].replace('\n', ' ').strip()\<close>.\<close>

definition evidence_window :: "string \<Rightarrow> nat \<Rightarrow> nat \<Rightarrow> string" where
  "evidence_window text ctx_start ctx_end =
     strip (replace_char (CHR 0x0A) (CHR '' '') (slice ctx_start ctx_end text))"

subsection \<open>Block 4: the Matchmaker, \<open>match_opportunities\<close>\<close>

text \<open>
  \<open>BOND_KEYWORDS\<close> (lines 61-66), a dict in insertion order, and the bond detection of
  lines 307-311. \<open>re_search pat text\<close> stands for \<open>re.search(pat, text)\<close> finding a match.
\<close>

definition BOND_KEYWORDS :: "(string \<times> string list) list" where
  "BOND_KEYWORDS =
    [(''CLT'', [''clt'', ''carteira assinada'', ''regime celetista'']),
     (''Estatut'' @ [CHR 0xE1] @ ''rio'',
        [''estatut['' @ [CHR 0xE1] @ ''a]rio'', ''cargo p['' @ [CHR 0xFA] @ ''u]blico'',
         ''concurso p['' @ [CHR 0xFA] @ ''u]blico'', ''efetivo'']),
     (''Tempor'' @ [CHR 0xE1] @ ''rio'',
        [''tempor['' @ [CHR 0xE1] @ ''a]rio'', ''processo seletivo'', ''pss'', ''determinado'']),
     (''Bolsa'',
        [''bolsa'', ''bolsista'', ''est['' @ [CHR 0xE1] @ ''a]gio'', ''ajuda de custo''])]"

definition detect_bond :: "(string \<Rightarrow> string \<Rightarrow> bool) \<Rightarrow> string \<Rightarrow> string" where
  "detect_bond re_search combined_context =
     (case find (\<lambda>(bond_type, patterns). list_ex (\<lambda>pat. re_search pat combined_context) patterns)
             BOND_KEYWORDS of
        None \<Rightarrow> nao_informado
      | Some (bond_type, patterns) \<Rightarrow> bond_type)"

text \<open>
  \<open>salaries_map\<close> (lines 255-267): the salary rows grouped under the key
  \<open>(str(doc_id), page_num)\<close>, each group in row order. In the rows that
  \<open>extract_salaries\<close> builds, \<open>doc_id\<close> is a string, \<open>page_num\<close> an \<open>int\<close> and
  \<open>match_start_idx\<close> an \<open>int\<close>, so the \<open>pd.isna\<close> guards of lines 260, 262, 277, 280 and
  291 never skip a row and \<open>str\<close> and \<open>int\<close> leave the key as it is. The audit counter of
  lines 269-274 is only logged.
\<close>

definition add_salary ::
  "(string \<times> int \<rightharpoonup> salary_candidate list) \<Rightarrow> salary_candidate \<Rightarrow>
   (string \<times> int \<rightharpoonup> salary_candidate list)" where
  "add_salary salaries_map row =
     (let key = (sal_doc_id row, sal_page_num row) in
      salaries_map(key \<mapsto> (case salaries_map key of None \<Rightarrow> [] | Some l \<Rightarrow> l) @ [row]))"

definition build_salaries_map ::
  "salary_candidate list \<Rightarrow> (string \<times> int \<rightharpoonup> salary_candidate list)" where
  "build_salaries_map salaries = foldl add_salary Map.empty salaries"

text \<open>\<open>salaries_map.get((doc_id, page_num), [])\<close> (line 286).\<close>

definition possible_salaries ::
  "salary_candidate list \<Rightarrow> string \<times> int \<Rightarrow> salary_candidate list" where
  "possible_salaries salaries key =
     (case build_salaries_map salaries key of None \<Rightarrow> [] | Some l \<Rightarrow> l)"

text \<open>The loop of lines 290-294: the salary rows of the page that qualify, with their distance.\<close>

definition valid_candidates ::
  "int \<Rightarrow> salary_candidate list \<Rightarrow> (salary_candidate \<times> int) list" where
  "valid_candidates inst_pos possible =
     filter (\<lambda>(sal, dist). dist < 3000)
       (map (\<lambda>sal. (sal, \<bar>inst_pos - sal_match_start_idx sal\<bar>)) possible)"

definition qualifying ::
  "role_candidate \<Rightarrow> salary_candidate list \<Rightarrow> (salary_candidate \<times> int) list" where
  "qualifying inst salaries =
     valid_candidates (role_match_start_idx inst)
       (possible_salaries salaries (role_doc_id inst, role_page_num inst))"

text \<open>
  Lines 296-301: \<open>valid_candidates.sort(key=lambda x: (-x[0]['score'], x[1]))\<close> and the
  head of the sorted list. \<open>list.sort\<close> is stable and compares the key tuples
  lexicographically, as \<open>sort_key\<close> does on pairs.
\<close>

definition best_salary ::
  "role_candidate \<Rightarrow> salary_candidate list \<Rightarrow> (salary_candidate \<times> int) option" where
  "best_salary inst salaries =
     (case sort_key (\<lambda>(sal, dist). (- sal_score sal, dist)) (qualifying inst salaries) of
        [] \<Rightarrow> None
      | x # rest \<Rightarrow> Some x)"

text \<open>
  \<open>formatar_real\<close> (lines 339-341). \<open>f"{val:,.2f}"\<close> prints the amount with two decimals
  and a comma between groups of three digits; the three \<open>replace\<close> calls then exchange
  comma and full stop. The format rounds to the nearest hundredth, a tie to the even
  one; the amounts that reach it have two decimals, which it leaves as they are.
\<close>

definition digit_char :: "nat \<Rightarrow> char" where
  "digit_char d = char_of (0x30 + d mod 10)"

fun grouped :: "nat \<Rightarrow> string" where
  "grouped n =
     (if n < 10 then [digit_char n]
      else if n < 100 then [digit_char (n div 10), digit_char n]
      else if n < 1000 then [digit_char (n div 100), digit_char (n div 10), digit_char n]
      else grouped (n div 1000) @ '','' @
           [digit_char (n div 100), digit_char (n div 10), digit_char n])"

definition format_2f :: "rat \<Rightarrow> string" where
  "format_2f val =
     (let scaled = \<bar>val\<bar> * 100;
          below = \<lfloor>scaled\<rfloor>;
          rest = scaled - of_int below;
          cents = nat (if rest < 1 / 2 \<or> (rest = 1 / 2 \<and> even below) then below
                       else below + 1)
      in (if val < 0 then ''-'' else []) @ grouped (cents div 100) @ ''.'' @
         [digit_char (cents div 10), digit_char cents])"

definition formatar_real :: "rat option \<Rightarrow> string" where
  "formatar_real val =
     (case val of
        None \<Rightarrow> nao_informado
      | Some v \<Rightarrow>
          replace_char (CHR ''X'') (CHR ''.'')
            (replace_char (CHR ''.'') (CHR '','')
              (replace_char (CHR '','') (CHR ''X'') (''R$ '' @ format_2f v))))"

text \<open>
  The body of the loop over \<open>self.candidates\<close> (lines 276-335) for one role row, with the
  display column of line 343 filled in.
\<close>

definition opportunity_of ::
  "(string \<Rightarrow> string \<Rightarrow> bool) \<Rightarrow> salary_candidate list \<Rightarrow> role_candidate \<Rightarrow> opportunity" where
  "opportunity_of re_search salaries inst =
     (let best = best_salary inst salaries;
          inst_evidence = role_evidence_text inst;
          sal_evidence = (case best of None \<Rightarrow> [] | Some (sal, min_dist) \<Rightarrow> sal_evidence_text sal);
          combined_context = normalize_text (inst_evidence @ '' '' @ sal_evidence);
          detected_bond = detect_bond re_search combined_context;
          valor = (case best of None \<Rightarrow> None | Some (sal, min_dist) \<Rightarrow> Some (sal_canonical_value sal))
      in \<lparr> doc_id = role_doc_id inst,
           source_name = role_source_name inst,
           page_num = role_page_num inst,
           instrumento = role_canonical_value inst,
           contexto_instrumento = role_evidence_text inst,
           tipo_vinculo = detected_bond,
           salario_valor = valor,
           salario_score = (case best of None \<Rightarrow> 0 | Some (sal, min_dist) \<Rightarrow> sal_score sal),
           distancia_chars = (case best of None \<Rightarrow> - 1 | Some (sal, min_dist) \<Rightarrow> min_dist),
           contexto_salario =
             (case best of None \<Rightarrow> None | Some (sal, min_dist) \<Rightarrow> Some (sal_evidence_text sal)),
           match_type = (case best of None \<Rightarrow> NO_MATCH | Some (sal, min_dist) \<Rightarrow> PAGE_PROXIMITY),
           salario_formatado = formatar_real valor \<rparr>)"

text \<open>
  \<open>match_opportunities\<close> (lines 246-343): nothing is produced when there is no role
  candidate (line 250); otherwise one opportunity per role row, in row order.
\<close>

definition match_opportunities ::
  "(string \<Rightarrow> string \<Rightarrow> bool) \<Rightarrow> role_candidate list \<Rightarrow> salary_candidate list \<Rightarrow>
   opportunity list" where
  "match_opportunities re_search candidates salaries =
     (if candidates = [] then [] else map (opportunity_of re_search salaries) candidates)"

subsection \<open>The page table and pandas' \<open>sort_values\<close>\<close>

text \<open>
  A row of \<open>self.silver_data\<close> as the extractors read it: \<open>doc_id\<close> (a string since line
  102), \<open>row.get('source_name', 'unknown')\<close>, \<open>str(row['full_text'])\<close>, and
  \<open>pd.to_numeric(row.get('page_num'), errors='coerce')\<close>, which is \<open>None\<close> here when the
  cell is missing or cannot be read as a number (the coercion gives NaN) and \<open>Some\<close> of
  the number, made an \<open>int\<close>, otherwise. (A page number that is infinite, on which
  \<open>int\<close> raises, is left out of the model.)
\<close>

record page_row =
  pg_doc_id :: string
  pg_source_name :: string
  pg_page_num :: "int option"
  pg_full_text :: string

text \<open>
  \<open>DataFrame.sort_values(column, ascending=False)\<close> is called with pandas' default
  \<open>kind='quicksort'\<close>, which pandas documents as not stable: the order in which it
  leaves rows of equal key is decided inside the library. The call is a parameter
  \<open>sort_values key rows\<close> of the functions that make it.
\<close>

text \<open>\<open>drop_duplicates(subset=...)\<close> with the default \<open>keep='first'\<close>.\<close>

fun drop_duplicates :: "('a \<Rightarrow> 'k) \<Rightarrow> 'a list \<Rightarrow> 'a list" where
  "drop_duplicates key [] = []"
| "drop_duplicates key (x # xs) = x # drop_duplicates key (filter (\<lambda>y. key y \<noteq> key x) xs)"

subsection \<open>Block 2: the role extractor, \<open>extract_instruments\<close>\<close>

definition backslash :: char where
  "backslash = CHR 0x5C"

text \<open>\<open>INSTRUMENT_TAXONOMY\<close> (lines 25-42), a dict in insertion order.\<close>

definition INSTRUMENT_TAXONOMY :: "(string \<times> string list) list" where
  "INSTRUMENT_TAXONOMY =
    [(''Fagote'', [''fagote'', ''fagotista'']),
     (''Flauta'', [''flauta'', ''flautista'', ''flautim'', ''piccolo'']),
     (''Obo'' @ [CHR 0xE9],
        [''obo[e'' @ [CHR 0xE9] @ '']'', ''obo[i'' @ [CHR 0xED] @ '']sta'',
         ''corne'' @ [backslash] @ ''s+ingl[e'' @ [CHR 0xEA] @ '']s'']),
     (''Clarinete'', [''clarinete'', ''clarinetista'', ''clarineta'', ''clarone'']),
     (''Trompa'', [''trompa'', ''trompista'']),
     (''Trompete'', [''trompete'', ''trompetista'']),
     (''Trombone'', [''trombone'', ''trombonista'']),
     (''Tuba'', [''tuba'', ''tubista'', ''euphonium'', ''bombardino'']),
     (''Violino'', [''violino'', ''violinista'', ''spalla'', ''concertino'']),
     (''Viola'', [backslash # ''bviola(?!'' @ [backslash] @ ''w)'', ''violista'']),
     (''Violoncelo'', [''violoncelo'', ''violoncelista'', ''cello'']),
     (''Contrabaixo'',
        [''contrabaixo'', ''contrabaixista'',
         ''baixo'' @ [backslash] @ ''s+ac[u'' @ [CHR 0xFA] @ '']stico'']),
     (''Piano'', [''piano'', ''pianista'', ''correpetidor'']),
     (''Percuss'' @ [CHR 0xE3] @ ''o'',
        [''percuss[a'' @ [CHR 0xE3] @ '']o'', ''percussionista'',
         ''t[i'' @ [CHR 0xED] @ '']mpanos'']),
     (''Harpa'', [''harpa'', ''harpista'']),
     (''Canto'',
        [''cantor(?:a)?'', ''corista'', ''solista'' @ [backslash] @ ''s+vocal'',
         ''artista'' @ [backslash] @ ''s+do'' @ [backslash] @ ''s+coro''])]"

text \<open>\<open>sub in s\<close> on strings.\<close>

definition contains :: "string \<Rightarrow> string \<Rightarrow> bool" where
  "contains sub s = list_ex (\<lambda>i. take (length sub) (drop i s) = sub) [0..<Suc (length s)]"

definition basic_markers :: "string list" where
  "basic_markers = [backslash # ''s'', ''['', ''('', ''|'', ''*'', ''+'', ''?'', ''{'']"

text \<open>Lines 138-144: a pattern with regular-expression syntax is used as it is, a bare
  keyword is wrapped in word boundaries.\<close>

definition is_complex :: "string \<Rightarrow> bool" where
  "is_complex pattern =
     (contains [backslash] pattern \<or> contains ([backslash] @ ''b'') pattern \<or>
      contains ''(?'' pattern \<or> list_ex (\<lambda>marker. contains marker pattern) basic_markers)"

definition regex_pattern :: "string \<Rightarrow> string" where
  "regex_pattern pattern =
     (if is_complex pattern then pattern
      else [backslash] @ ''b'' @ pattern @ [backslash] @ ''b'')"

text \<open>
  \<open>list(re.finditer(regex_pattern, text_original, re.IGNORECASE))\<close> is the parameter
  \<open>finditer\<close>: it gives \<open>Inl\<close> of the exception that the call raises and else \<open>Inr\<close>
  of the spans of the matches, in scan order. A pattern that does not compile raises
  \<open>re.error\<close> as a rule; a repetition count that is too large raises \<open>OverflowError\<close>,
  and a pattern nested too deep raises \<open>RecursionError\<close>. Line 159 catches \<open>re.error\<close>
  and nothing else.
\<close>

datatype py_exception = re_error | OverflowError | RecursionError

type_synonym finditer = "string \<Rightarrow> string \<Rightarrow> py_exception + (nat \<times> nat) list"

text \<open>
  A \<open>for\<close> loop whose body appends rows to \<open>extracted_rows\<close>: an exception that the
  body raises and does not catch ends the loop and the function that runs it, and the
  rows gathered so far go with it.
\<close>

fun collect_rows :: "('a \<Rightarrow> py_exception + 'b list) \<Rightarrow> 'a list \<Rightarrow> py_exception + 'b list" where
  "collect_rows body [] = Inr []"
| "collect_rows body (x # xs) =
     (case body x of
        Inl exc \<Rightarrow> Inl exc
      | Inr rows \<Rightarrow>
          (case collect_rows body xs of
             Inl exc \<Rightarrow> Inl exc
           | Inr later \<Rightarrow> Inr (rows @ later)))"

text \<open>Lines 148-158: the row of one match.\<close>

definition role_of_match ::
  "string \<Rightarrow> string \<Rightarrow> int \<Rightarrow> string \<Rightarrow> string \<Rightarrow> nat \<times> nat \<Rightarrow> role_candidate" where
  "role_of_match doc source pn text_original canonical m =
     (let start = fst m; stop = snd m;
          ctx_start = nat (max 0 (int start - 80));
          ctx_end = min (length text_original) (stop + 80);
          evidence = evidence_window text_original ctx_start ctx_end
      in \<lparr> role_doc_id = doc, role_source_name = source, role_page_num = pn,
           role_entity_type = ''INSTRUMENTO'', role_canonical_value = canonical,
           role_raw_value = slice start stop text_original, role_evidence_text = evidence,
           role_match_start_idx = int start, role_confidence = ''HIGH'' \<rparr>)"

text \<open>Lines 136-159: the rows of one pattern on one page. A pattern that raises
  \<open>re.error\<close> adds none (\<open>except re.error: pass\<close>); any other exception goes on.\<close>

definition pattern_rows ::
  "finditer \<Rightarrow> string \<Rightarrow> string \<Rightarrow> int \<Rightarrow> string \<Rightarrow> string \<Rightarrow> string \<Rightarrow>
   py_exception + role_candidate list" where
  "pattern_rows finditer doc source pn text_original canonical pattern =
     (case finditer (regex_pattern pattern) text_original of
        Inl exc \<Rightarrow> if exc = re_error then Inr [] else Inl exc
      | Inr matches \<Rightarrow> Inr (map (role_of_match doc source pn text_original canonical) matches))"

text \<open>Lines 126-159: the rows of one page, role by role and pattern by pattern; a
  page without a page number adds none and tries no pattern (line 132).\<close>

definition page_instruments ::
  "finditer \<Rightarrow> (string \<times> string list) list \<Rightarrow> page_row \<Rightarrow>
   py_exception + role_candidate list" where
  "page_instruments finditer taxonomy row =
     (case pg_page_num row of
        None \<Rightarrow> Inr []
      | Some pn \<Rightarrow>
          collect_rows (\<lambda>(canonical, patterns).
                    collect_rows (pattern_rows finditer (pg_doc_id row) (pg_source_name row) pn
                                   (pg_full_text row) canonical) patterns)
                  taxonomy)"

definition extracted_roles ::
  "finditer \<Rightarrow> (string \<times> string list) list \<Rightarrow> page_row list \<Rightarrow>
   py_exception + role_candidate list" where
  "extracted_roles finditer taxonomy silver_data =
     collect_rows (page_instruments finditer taxonomy) silver_data"

definition evidence_len :: "role_candidate \<Rightarrow> nat" where
  "evidence_len r = length (role_evidence_text r)"

definition dedup_key :: "role_candidate \<Rightarrow> string \<times> int \<times> string" where
  "dedup_key r = (role_doc_id r, role_page_num r, role_canonical_value r)"

text \<open>Lines 161-166: sort by the length of the evidence, longest first, and keep the
  first row of every \<open>(doc_id, page_num, canonical_value)\<close>.\<close>

definition deduplicate ::
  "((role_candidate \<Rightarrow> nat) \<Rightarrow> role_candidate list \<Rightarrow> role_candidate list) \<Rightarrow>
   role_candidate list \<Rightarrow> role_candidate list" where
  "deduplicate sort_values rows =
     (if rows = [] then [] else drop_duplicates dedup_key (sort_values evidence_len rows))"

text \<open>\<open>extract_instruments\<close> (lines 120-167): the deduplicated rows, or the exception
  that left the loops.\<close>

definition extract_instruments ::
  "finditer \<Rightarrow> ((role_candidate \<Rightarrow> nat) \<Rightarrow> role_candidate list \<Rightarrow> role_candidate list) \<Rightarrow>
   (string \<times> string list) list \<Rightarrow> page_row list \<Rightarrow> py_exception + role_candidate list" where
  "extract_instruments finditer sort_values taxonomy silver_data =
     (case extracted_roles finditer taxonomy silver_data of
        Inl exc \<Rightarrow> Inl exc
      | Inr rows \<Rightarrow> Inr (deduplicate sort_values rows))"

text \<open>The taxonomy without one pattern.\<close>

definition without_pattern ::
  "string \<Rightarrow> (string \<times> string list) list \<Rightarrow> (string \<times> string list) list" where
  "without_pattern p taxonomy =
     map (\<lambda>(canonical, patterns). (canonical, filter (\<lambda>q. q \<noteq> p) patterns)) taxonomy"

subsection \<open>Block 3: the salary extractor, \<open>extract_salaries\<close>\<close>

text \<open>\<open>SALARY_CONFIG\<close> (lines 45-58).\<close>

definition min_val :: rat where
  "min_val = 700"

definition max_val :: rat where
  "max_val = 45000"

definition positive_keywords :: "string list" where
  "positive_keywords =
     [''remuneracao'', ''salario'', ''mensal'', ''cache'', ''bolsa'', ''vencimento'',
      ''subsidio'', ''honorario'', ''premio'', ''pagamento'']"

definition negative_keywords :: "string list" where
  "negative_keywords =
     [''multa'', ''taxa'', ''inscricao'', ''boleto'', ''gru'', ''darf'',
      ''custo'', ''diaria'', ''ajuda de custo'', ''verba'', ''recurso'']"

text \<open>
  One match of \<open>SALARY_CONFIG['regex']\<close>: its three groups (\<open>None\<close> for a group that took
  no part in the match) and its span. Group 1 is the currency marker \<open>R$\<close> with the blanks
  after it, group 2 the integer digits, grouped by full stops or bare, group 3 the two
  digits after a comma. \<open>list(salary_pattern.finditer(text))\<close> is the parameter
  \<open>salary_finditer\<close>.
\<close>

record salary_match =
  group1 :: "string option"
  group2 :: "string option"
  group3 :: "string option"
  span_start :: nat
  span_end :: nat

definition is_digit :: "char \<Rightarrow> bool" where
  "is_digit c = (let n = (of_char c :: nat) in 0x30 \<le> n \<and> n \<le> 0x39)"

definition digits_value :: "string \<Rightarrow> nat" where
  "digits_value ds = foldl (\<lambda>acc c. 10 * acc + (of_char c - 0x30)) 0 ds"

text \<open>
  \<open>float(f"{int_clean}.{dec_clean}")\<close> (line 210) on the strings the groups can hold:
  the decimal number when both parts are digits, \<open>ValueError\<close> (here \<open>None\<close>) otherwise.
\<close>

definition py_float :: "string \<Rightarrow> string \<Rightarrow> rat option" where
  "py_float int_clean dec_clean =
     (if list_all is_digit int_clean \<and> list_all is_digit dec_clean \<and>
         (int_clean \<noteq> [] \<or> dec_clean \<noteq> [])
      then Some (of_nat (digits_value int_clean) +
                 of_nat (digits_value dec_clean) / 10 ^ length dec_clean)
      else None)"

text \<open>The tests made on one match (lines 186-203 and 217-218).\<close>

definition symbol_found :: "salary_match \<Rightarrow> bool" where
  "symbol_found m = (case group1 m of None \<Rightarrow> False | Some g \<Rightarrow> g \<noteq> [])"

definition context_norm :: "string \<Rightarrow> salary_match \<Rightarrow> string" where
  "context_norm text m =
     (let ctx_start = nat (max 0 (int (span_start m) - 120));
          ctx_end = min (length text) (span_end m + 120)
      in normalize_text (slice ctx_start ctx_end text))"

definition has_positive :: "string \<Rightarrow> salary_match \<Rightarrow> bool" where
  "has_positive text m = has_keyword_simple (context_norm text m) positive_keywords"

definition has_negative :: "string \<Rightarrow> salary_match \<Rightarrow> bool" where
  "has_negative text m = has_keyword_simple (context_norm text m) negative_keywords"

definition has_format :: "string \<Rightarrow> string option \<Rightarrow> bool" where
  "has_format int_part_raw dec_part_raw = (CHR ''.'' \<in> set int_part_raw \<or> dec_part_raw \<noteq> None)"

definition is_raw_number :: "string \<Rightarrow> string option \<Rightarrow> bool" where
  "is_raw_number int_part_raw dec_part_raw = (CHR ''.'' \<notin> set int_part_raw \<and> dec_part_raw = None)"

text \<open>Lines 207-210: the amount read from the groups.\<close>

definition val_float :: "string \<Rightarrow> string option \<Rightarrow> rat option" where
  "val_float int_part_raw dec_part_raw =
     (let int_clean = filter (\<lambda>c. c \<noteq> CHR ''.'') int_part_raw;
          dec_clean = (case dec_part_raw of None \<Rightarrow> ''00'' | Some d \<Rightarrow> if d = [] then ''00'' else d)
      in py_float int_clean dec_clean)"

text \<open>Lines 224-227: the score.\<close>

definition salary_score :: "bool \<Rightarrow> bool \<Rightarrow> bool \<Rightarrow> int" where
  "salary_score symbol positive negative =
     (let score = 0;
          score = (if symbol then score + 2 else score);
          score = (if positive then score + 3 else score);
          score = (if negative then score - 10 else score)
      in score)"

text \<open>
  The body of the loop over the matches of a page (lines 186-237): \<open>None\<close> for a match
  that a \<open>continue\<close> drops, \<open>Some\<close> of the row that is appended otherwise.
\<close>

definition salary_of_match ::
  "string \<Rightarrow> string \<Rightarrow> int \<Rightarrow> string \<Rightarrow> salary_match \<Rightarrow> salary_candidate option" where
  "salary_of_match doc source pn text m =
     (case group2 m of
        None \<Rightarrow> None
      | Some int_part_raw \<Rightarrow>
          if int_part_raw = [] then None
          else
            let dec_part_raw = group3 m;
                start = span_start m; stop = span_end m;
                ctx_start = nat (max 0 (int start - 120));
                ctx_end = min (length text) (stop + 120);
                evidence = evidence_window text ctx_start ctx_end
            in
              if \<not> symbol_found m \<and> \<not> has_format int_part_raw dec_part_raw \<and> \<not> has_positive text m
              then None
              else
                (case val_float int_part_raw dec_part_raw of
                   None \<Rightarrow> None
                 | Some v \<Rightarrow>
                     if \<not> (min_val \<le> v \<and> v \<le> max_val) then None
                     else if (1900 \<le> v \<and> v \<le> 2100) \<and> is_raw_number int_part_raw dec_part_raw \<and>
                             \<not> symbol_found m \<and> \<not> has_positive text m
                     then None
                     else
                       let score = salary_score (symbol_found m) (has_positive text m)
                                     (has_negative text m)
                       in
                         if \<not> symbol_found m \<and> \<not> has_positive text m then None
                         else if score < 0 then None
                         else Some \<lparr> sal_doc_id = doc, sal_source_name = source,
                                     sal_page_num = pn, sal_entity_type = ''SALARIO'',
                                     sal_canonical_value = v,
                                     sal_raw_value = slice start stop text,
                                     sal_evidence_text = evidence,
                                     sal_match_start_idx = int start, sal_score = score \<rparr>))"

text \<open>Lines 175-237: the rows of one page; a page without a page number adds none
  (line 181).\<close>

definition page_salaries :: "(string \<Rightarrow> salary_match list) \<Rightarrow> page_row \<Rightarrow> salary_candidate list" where
  "page_salaries salary_finditer row =
     (case pg_page_num row of
        None \<Rightarrow> []
      | Some pn \<Rightarrow>
          List.map_filter
            (salary_of_match (pg_doc_id row) (pg_source_name row) pn (pg_full_text row))
            (salary_finditer (pg_full_text row)))"

definition extracted_salaries ::
  "(string \<Rightarrow> salary_match list) \<Rightarrow> page_row list \<Rightarrow> salary_candidate list" where
  "extracted_salaries salary_finditer silver_data =
     concat (map (page_salaries salary_finditer) silver_data)"

text \<open>\<open>extract_salaries\<close> (lines 169-244), with the sort by score of lines 239-241.\<close>

definition extract_salaries ::
  "(string \<Rightarrow> salary_match list) \<Rightarrow>
   ((salary_candidate \<Rightarrow> int) \<Rightarrow> salary_candidate list \<Rightarrow> salary_candidate list) \<Rightarrow>
   page_row list \<Rightarrow> salary_candidate list" where
  "extract_salaries salary_finditer sort_values silver_data =
     (let rows = extracted_salaries salary_finditer silver_data
      in if rows = [] then [] else sort_values sal_score rows)"

text \<open>The page table without the rows that have no page number.\<close>

definition with_page_num :: "page_row list \<Rightarrow> page_row list" where
  "with_page_num silver_data = filter (\<lambda>row. pg_page_num row \<noteq> None) silver_data"

subsection \<open>Example rows\<close>

text \<open>A role row at offset 100 of page 1, and salary rows of the same document at a
  chosen page, offset and score.\<close>

definition ex_role :: role_candidate where
  "ex_role = \<lparr> role_doc_id = ''edital-01'', role_source_name = ''osesp'', role_page_num = 1,
      role_entity_type = ''INSTRUMENTO'', role_canonical_value = ''Fagote'',
      role_raw_value = ''fagote'', role_evidence_text = ''vaga para fagote'',
      role_match_start_idx = 100, role_confidence = ''HIGH'' \<rparr>"

definition ex_salary :: "int \<Rightarrow> int \<Rightarrow> int \<Rightarrow> salary_candidate" where
  "ex_salary page offset score = \<lparr> sal_doc_id = ''edital-01'', sal_source_name = ''osesp'',
      sal_page_num = page, sal_entity_type = ''SALARIO'', sal_canonical_value = 8500,
      sal_raw_value = ''R$ 8.500,00'', sal_evidence_text = ''R$ 8.500,00'',
      sal_match_start_idx = offset, sal_score = score \<rparr>"

text \<open>
  What a match of \<open>SALARY_CONFIG['regex']\<close>,
  \<open>(?<!\d)(R\$\s*)?((?:\d{1,3}(?:\.\d{3})+)|(?:\d{3,6}))(?:,(\d{2}))?(?!\d)\<close>,
  looks like in its text: the shapes of the three groups, the matched text and the two
  look-arounds. It is used to check the example matches below.
\<close>

fun dot_groups :: "string \<Rightarrow> bool" where
  "dot_groups (c # d1 # d2 # d3 # rest) =
     (c = CHR ''.'' \<and> is_digit d1 \<and> is_digit d2 \<and> is_digit d3 \<and> (rest = [] \<or> dot_groups rest))"
| "dot_groups _ = False"

definition grouped_digits :: "string \<Rightarrow> bool" where
  "grouped_digits ds =
     list_ex (\<lambda>k. list_all is_digit (take k ds) \<and> dot_groups (drop k ds)) [1, 2, 3]"

definition bare_digits :: "string \<Rightarrow> bool" where
  "bare_digits ds = (3 \<le> length ds \<and> length ds \<le> 6 \<and> list_all is_digit ds)"

definition is_salary_match :: "string \<Rightarrow> salary_match \<Rightarrow> bool" where
  "is_salary_match text m =
     ((case group1 m of None \<Rightarrow> True
       | Some g \<Rightarrow> take 2 g = ''R$'' \<and> list_all is_space (drop 2 g)) \<and>
      (case group2 m of None \<Rightarrow> False | Some ds \<Rightarrow> grouped_digits ds \<or> bare_digits ds) \<and>
      (case group3 m of None \<Rightarrow> True | Some d \<Rightarrow> length d = 2 \<and> list_all is_digit d) \<and>
      span_start m \<le> span_end m \<and> span_end m \<le> length text \<and>
      slice (span_start m) (span_end m) text =
        (case group1 m of None \<Rightarrow> [] | Some g \<Rightarrow> g) @
        (case group2 m of None \<Rightarrow> [] | Some ds \<Rightarrow> ds) @
        (case group3 m of None \<Rightarrow> [] | Some d \<Rightarrow> '','' @ d) \<and>
      (span_start m = 0 \<or> \<not> is_digit (text ! (span_start m - 1))) \<and>
      (span_end m = length text \<or> \<not> is_digit (text ! span_end m)))"

text \<open>The bare token 3500 after the words \<open>salario mensal\<close> (with the accent on the
  first a), and its match.\<close>

definition ex_text_3500 :: string where
  "ex_text_3500 = ''sal'' @ [CHR 0xE1] @ ''rio mensal de 3500 reais''"

definition ex_match_3500 :: salary_match where
  "ex_match_3500 = \<lparr> group1 = None, group2 = Some ''3500'', group3 = None,
      span_start = 18, span_end = 22 \<rparr>"

text \<open>The bare token 2025 where no keyword is near, and its match.\<close>

definition ex_text_2025 :: string where
  "ex_text_2025 = ''Edital 2025 da orquestra''"

definition ex_match_2025 :: salary_match where
  "ex_match_2025 = \<lparr> group1 = None, group2 = Some ''2025'', group3 = None,
      span_start = 7, span_end = 11 \<rparr>"

text \<open>An amount with the currency marker after the words \<open>taxa de inscricao\<close> (with
  cedilla and tilde), and its match.\<close>

definition ex_text_taxa :: string where
  "ex_text_taxa = ''taxa de inscri'' @ [CHR 0xE7, CHR 0xE3] @ ''o R$ 1.500,00''"

definition ex_match_taxa :: salary_match where
  "ex_match_taxa = \<lparr> group1 = Some ''R$ '', group2 = Some ''1.500'', group3 = Some ''00'',
      span_start = 18, span_end = 29 \<rparr>"

text \<open>An amount with the currency marker after the word \<open>salario\<close>, and its match.\<close>

definition ex_text_8500 :: string where
  "ex_text_8500 = ''Fagote: sal'' @ [CHR 0xE1] @ ''rio mensal de R$ 8.500,00, regime CLT.''"

definition ex_match_8500 :: salary_match where
  "ex_match_8500 = \<lparr> group1 = Some ''R$ '', group2 = Some ''8.500'', group3 = Some ''00'',
      span_start = 26, span_end = 37 \<rparr>"

subsection \<open>An example engine, taxonomy and page table\<close>

text \<open>
  A small stand-in for \<open>re.finditer\<close>, enough for the examples: a pattern with the
  repetition count \<open>{4294967296}\<close> raises \<open>OverflowError\<close>; a pattern with an opening
  bracket that is never closed raises \<open>re.error\<close>; a pattern wrapped in \<open>\b\<close> finds the
  occurrences of its keyword between word boundaries; any other pattern finds the
  occurrences of its text.
\<close>

definition ex_finditer :: finditer where
  "ex_finditer pattern text =
     (if contains ''{4294967296}'' pattern then Inl OverflowError
      else if contains ''['' pattern \<and> \<not> contains '']'' pattern then Inl re_error
      else if 4 \<le> length pattern \<and> take 2 pattern = [backslash] @ ''b'' \<and>
              drop (length pattern - 2) pattern = [backslash] @ ''b''
      then (let kw = slice 2 (length pattern - 2) pattern
            in Inr (map (\<lambda>i. (i, i + length kw))
                     (filter (keyword_at text kw) [0..<Suc (length text)])))
      else Inr (map (\<lambda>i. (i, i + length pattern))
                  (filter (\<lambda>i. take (length pattern) (drop i text) = pattern)
                     [0..<Suc (length text)])))"

definition ex_taxonomy :: "(string \<times> string list) list" where
  "ex_taxonomy = [(''Fagote'', [''fagote'', ''fag['', ''fagotista'']), (''Tuba'', [''tuba''])]"

text \<open>A taxonomy with a pattern whose repetition count is too large.\<close>

definition ex_taxonomy_overflow :: "(string \<times> string list) list" where
  "ex_taxonomy_overflow =
     [(''Fagote'', [''fagote'', ''fagote{4294967296}'', ''fagotista'']), (''Tuba'', [''tuba''])]"

definition ex_page :: "int option \<Rightarrow> string \<Rightarrow> page_row" where
  "ex_page pn text = \<lparr> pg_doc_id = ''edital-01'', pg_source_name = ''osesp'',
      pg_page_num = pn, pg_full_text = text \<rparr>"

definition ex_silver_data :: "page_row list" where
  "ex_silver_data =
     [ex_page (Some 1) ''fagote e fagotista'',
      ex_page None ''tuba: R$ 9.000,00'',
      ex_page (Some 3) ''tuba e fagote'']"

text \<open>A stand-in for the matches of the salary pattern: the one match of the page that
  has no page number, nothing elsewhere.\<close>

definition ex_salary_finditer :: "string \<Rightarrow> salary_match list" where
  "ex_salary_finditer text =
     (if text = ''tuba: R$ 9.000,00''
      then [\<lparr> group1 = Some ''R$ '', group2 = Some ''9.000'', group3 = Some ''00'',
              span_start = 6, span_end = 17 \<rparr>]
      else [])"

text \<open>The two rows that the patterns \<open>fagote\<close> and \<open>fagotista\<close> give on the page
  \<open>fagote e fagotista\<close>: same role, same evidence window, in scan order.\<close>

definition ex_row_fagote :: role_candidate where
  "ex_row_fagote = \<lparr> role_doc_id = ''edital-01'', role_source_name = ''osesp'',
      role_page_num = 1, role_entity_type = ''INSTRUMENTO'', role_canonical_value = ''Fagote'',
      role_raw_value = ''fagote'', role_evidence_text = ''fagote e fagotista'',
      role_match_start_idx = 0, role_confidence = ''HIGH'' \<rparr>"

definition ex_row_fagotista :: role_candidate where
  "ex_row_fagotista = \<lparr> role_doc_id = ''edital-01'', role_source_name = ''osesp'',
      role_page_num = 1, role_entity_type = ''INSTRUMENTO'', role_canonical_value = ''Fagote'',
      role_raw_value = ''fagotista'', role_evidence_text = ''fagote e fagotista'',
      role_match_start_idx = 9, role_confidence = ''HIGH'' \<rparr>"

subsection \<open>An example of \<open>sort_values\<close> on a short table\<close>

text \<open>
  A stand-in for \<open>sort_values(column, ascending=False)\<close> with the default kind, enough
  for the examples: on a table of at most eight rows it does what pandas and the
  vectorised argsort of numpy do on an x86 processor with 512-bit registers. pandas turns
  the keys round, takes numpy's ascending argsort of them and turns the result round.
  numpy puts up to eight 64-bit keys, each with its position, in the lanes of one
  register, vacant lanes holding a key above all others, and runs the six layers of a
  bitonic sorting network over them. A compare-exchange of two lanes moves the positions
  with the keys only when the keys are out of order, so two equal keys are never
  exchanged with each other; a key can still pass an equal one when it is exchanged with
  a third. A longer table, which the examples do not use, is sorted here in row order.
\<close>

definition compare_exchange :: "nat \<times> nat \<Rightarrow> (nat \<times> nat) list \<Rightarrow> (nat \<times> nat) list" where
  "compare_exchange p lanes =
     (let i = fst p; j = snd p; a = lanes ! i; b = lanes ! j
      in if fst b < fst a then lanes[i := b, j := a] else lanes)"

definition network_64bit :: "(nat \<times> nat) list" where
  "network_64bit =
     [(0, 1), (2, 3), (4, 5), (6, 7),
      (0, 3), (1, 2), (4, 7), (5, 6),
      (0, 1), (2, 3), (4, 5), (6, 7),
      (0, 7), (1, 6), (2, 5), (3, 4),
      (0, 2), (1, 3), (4, 6), (5, 7),
      (0, 1), (2, 3), (4, 5), (6, 7)]"

definition argsort_8 :: "nat list \<Rightarrow> nat list" where
  "argsort_8 keys =
     (let n = length keys;
          vacant = Suc (fold max keys 0);
          lanes = zip (keys @ replicate (8 - n) vacant) ([0..<n] @ replicate (8 - n) 0)
      in map snd (take n (fold compare_exchange network_64bit lanes)))"

definition ex_sort_values :: "('a \<Rightarrow> nat) \<Rightarrow> 'a list \<Rightarrow> 'a list" where
  "ex_sort_values key rows =
     (let n = length rows in
      if 8 < n then rev (sort_key key (rev rows))
      else
        let items = rev (map key rows);
            idx = rev [0..<n];
            indexer = map (\<lambda>j. idx ! j) (argsort_8 items)
        in map (\<lambda>i. rows ! i) (rev indexer))"

text \<open>
  Two pages, the shorter one first, and the rows that \<open>INSTRUMENT_TAXONOMY\<close> gives on
  them: on page 1 one row for \<open>Fagote\<close> and one for \<open>Tuba\<close>, on page 2 two rows for
  \<open>Fagote\<close> with the same evidence window, the one of \<open>fagote\<close> first in scan order.
\<close>

definition ex_two_pages :: "page_row list" where
  "ex_two_pages = [ex_page (Some 1) ''tuba e fagote'', ex_page (Some 2) ''fagote e fagotista'']"

definition ex_p1_fagote :: role_candidate where
  "ex_p1_fagote = \<lparr> role_doc_id = ''edital-01'', role_source_name = ''osesp'',
      role_page_num = 1, role_entity_type = ''INSTRUMENTO'', role_canonical_value = ''Fagote'',
      role_raw_value = ''fagote'', role_evidence_text = ''tuba e fagote'',
      role_match_start_idx = 7, role_confidence = ''HIGH'' \<rparr>"

definition ex_p1_tuba :: role_candidate where
  "ex_p1_tuba = \<lparr> role_doc_id = ''edital-01'', role_source_name = ''osesp'',
      role_page_num = 1, role_entity_type = ''INSTRUMENTO'', role_canonical_value = ''Tuba'',
      role_raw_value = ''tuba'', role_evidence_text = ''tuba e fagote'',
      role_match_start_idx = 0, role_confidence = ''HIGH'' \<rparr>"

definition ex_p2_fagote :: role_candidate where
  "ex_p2_fagote = ex_row_fagote \<lparr> role_page_num := 2 \<rparr>"

definition ex_p2_fagotista :: role_candidate where
  "ex_p2_fagotista = ex_row_fagotista \<lparr> role_page_num := 2 \<rparr>"

section \<open>Properties\<close>

subsection \<open>The Matchmaker: grouping, qualification and selection\<close>


lemma foldl_add_salary:
  "(case foldl add_salary m salaries key of None \<Rightarrow> [] | Some l \<Rightarrow> l) =
   (case m key of None \<Rightarrow> [] | Some l \<Rightarrow> l) @
   filter (\<lambda>s. (sal_doc_id s, sal_page_num s) = key) salaries"
  by (induction salaries arbitrary: m) (auto simp: add_salary_def Let_def split: option.splits)

lemma possible_salaries_filter:
  "possible_salaries salaries key =
   filter (\<lambda>s. (sal_doc_id s, sal_page_num s) = key) salaries"
  using foldl_add_salary [of Map.empty salaries key]
  by (simp add: possible_salaries_def build_salaries_map_def)

lemma qualifying_filter:
  "qualifying inst salaries =
   map (\<lambda>sal. (sal, \<bar>role_match_start_idx inst - sal_match_start_idx sal\<bar>))
     (filter (\<lambda>sal. sal_doc_id sal = role_doc_id inst \<and> sal_page_num sal = role_page_num inst \<and>
                    \<bar>role_match_start_idx inst - sal_match_start_idx sal\<bar> < 3000) salaries)"
  unfolding qualifying_def valid_candidates_def possible_salaries_filter
  by (induction salaries) auto

lemma sort_key_head:
  assumes "xs \<noteq> []"
  shows "\<exists>x rest. sort_key f xs = x # rest \<and> x \<in> set xs \<and> (\<forall>y\<in>set xs. f x \<le> f y) \<and>
           x = hd (filter (\<lambda>y. f y = f x) xs)"
proof -
  have "length (sort_key f xs) = length xs" by simp
  with assms have "sort_key f xs \<noteq> []" by force
  then obtain x rest where eq: "sort_key f xs = x # rest" by (cases "sort_key f xs") auto
  have "set (sort_key f xs) = set xs" by simp
  with eq have sets: "set xs = insert x (set rest)" by simp
  have "sorted (map f (sort_key f xs))" by (rule sorted_sort_key)
  with eq have "\<forall>y\<in>set rest. f x \<le> f y" by simp
  with sets have le: "\<forall>y\<in>set xs. f x \<le> f y" by simp
  have "filter (\<lambda>y. f y = f x) xs = filter (\<lambda>y. f y = f x) (sort_key f xs)"
    by (rule sort_key_stable [symmetric])
  also have "\<dots> = x # filter (\<lambda>y. f y = f x) rest" unfolding eq by simp
  finally have "hd (filter (\<lambda>y. f y = f x) xs) = x" by simp
  with eq sets le show ?thesis by simp
qed


lemma hd_filter_index:
  "filter Q xs \<noteq> [] \<Longrightarrow>
   \<exists>i<length xs. xs ! i = hd (filter Q xs) \<and> Q (xs ! i) \<and> (\<forall>j<i. \<not> Q (xs ! j))"
proof (induction xs)
  case Nil
  then show ?case by simp
next
  case (Cons x xs)
  show ?case
  proof (cases "Q x")
    case True
    then show ?thesis by (intro exI [of _ 0]) simp
  next
    case False
    with Cons obtain i where i: "i < length xs" "xs ! i = hd (filter Q xs)" "Q (xs ! i)"
      "\<forall>j<i. \<not> Q (xs ! j)" by auto
    have "\<forall>j<Suc i. \<not> Q ((x # xs) ! j)"
      using False i(4) by (auto simp: less_Suc_eq_0_disj)
    with i False show ?thesis by (intro exI [of _ "Suc i"]) simp
  qed
qed


lemma best_salary_least:
  assumes "qualifying inst salaries \<noteq> []"
  shows "\<exists>i<length salaries. \<exists>dist.
           best_salary inst salaries = Some (salaries ! i, dist) \<and>
           (salaries ! i, dist) \<in> set (qualifying inst salaries) \<and>
           (\<forall>j<length salaries. \<forall>d. (salaries ! j, d) \<in> set (qualifying inst salaries) \<longrightarrow>
              sal_score (salaries ! j) < sal_score (salaries ! i) \<or>
              sal_score (salaries ! j) = sal_score (salaries ! i) \<and> dist < d \<or>
              sal_score (salaries ! j) = sal_score (salaries ! i) \<and> dist = d \<and> i \<le> j)"
proof -
  define dst where "dst = (\<lambda>sal :: salary_candidate. \<bar>role_match_start_idx inst - sal_match_start_idx sal\<bar>)"
  define P where "P = (\<lambda>sal :: salary_candidate. sal_doc_id sal = role_doc_id inst \<and>
     sal_page_num sal = role_page_num inst \<and> dst sal < 3000)"
  define f where "f = (\<lambda>(sal :: salary_candidate, dist :: int). (- sal_score sal, dist))"
  define q where "q = qualifying inst salaries"
  have q: "q = map (\<lambda>sal. (sal, dst sal)) (filter P salaries)"
    unfolding q_def P_def dst_def by (rule qualifying_filter)
  from assms have "q \<noteq> []" by (simp add: q_def)
  from sort_key_head [OF this, of f] obtain x rest where
    srt: "sort_key f q = x # rest" and mem: "x \<in> set q" and
    le: "\<forall>y\<in>set q. f x \<le> f y" and hd: "x = hd (filter (\<lambda>y. f y = f x) q)" by blast
  define Q where "Q = (\<lambda>sal :: salary_candidate. P sal \<and> f (sal, dst sal) = f x)"
  have flt: "filter (\<lambda>y. f y = f x) q = map (\<lambda>sal. (sal, dst sal)) (filter Q salaries)"
    unfolding q Q_def by (induction salaries) auto
  from mem have "filter (\<lambda>y. f y = f x) q \<noteq> []" by (auto simp: filter_empty_conv)
  with flt have ne: "filter Q salaries \<noteq> []" by auto
  with hd flt have x: "x = (hd (filter Q salaries), dst (hd (filter Q salaries)))"
    by (simp add: hd_map)
  from hd_filter_index [OF ne] obtain i where i: "i < length salaries"
    "salaries ! i = hd (filter Q salaries)" "Q (salaries ! i)" "\<forall>j<i. \<not> Q (salaries ! j)"
    by blast
  have xi: "x = (salaries ! i, dst (salaries ! i))" using x i(2) by simp
  have best: "best_salary inst salaries = Some (salaries ! i, dst (salaries ! i))"
    using srt xi by (simp add: best_salary_def f_def q_def)
  have "sal_score (salaries ! j) < sal_score (salaries ! i) \<or>
        sal_score (salaries ! j) = sal_score (salaries ! i) \<and> dst (salaries ! i) < d \<or>
        sal_score (salaries ! j) = sal_score (salaries ! i) \<and> dst (salaries ! i) = d \<and> i \<le> j"
    if j: "j < length salaries" and jd: "(salaries ! j, d) \<in> set q" for j d
  proof -
    from jd have d: "d = dst (salaries ! j)" and Pj: "P (salaries ! j)" by (auto simp: q)
    from le jd have key: "f x \<le> f (salaries ! j, d)" by blast
    show ?thesis
    proof (cases "f (salaries ! j, d) = f x")
      case True
      with Pj d have "Q (salaries ! j)" by (simp add: Q_def)
      with i(4) have "i \<le> j" by (meson not_le)
      with True show ?thesis by (simp add: f_def xi)
    next
      case False
      with key have "f x < f (salaries ! j, d)" by simp
      then show ?thesis by (auto simp: f_def xi less_prod_def)
    qed
  qed
  with best mem i(1) show ?thesis unfolding q_def [symmetric] xi by blast
qed

lemma best_salary_Some:
  assumes "best_salary inst salaries = Some (sal, dst)"
  shows "(sal, dst) \<in> set (qualifying inst salaries)"
proof -
  define f where "f = (\<lambda>(sal :: salary_candidate, dst :: int). (- sal_score sal, dst))"
  from assms obtain rest where "sort_key f (qualifying inst salaries) = (sal, dst) # rest"
    by (auto simp: best_salary_def f_def split: list.splits)
  then have "(sal, dst) \<in> set (sort_key f (qualifying inst salaries))" by simp
  then show ?thesis by simp
qed

lemma best_salary_None: "best_salary inst salaries = None \<longleftrightarrow> qualifying inst salaries = []"
proof -
  define f where "f = (\<lambda>(sal :: salary_candidate, dst :: int). (- sal_score sal, dst))"
  have "length (sort_key f (qualifying inst salaries)) = length (qualifying inst salaries)"
    by simp
  then have "sort_key f (qualifying inst salaries) = [] \<longleftrightarrow> qualifying inst salaries = []"
    by (metis length_0_conv)
  then show ?thesis by (auto simp: best_salary_def f_def split: list.splits)
qed

lemma qualifying_member:
  "(sal, dst) \<in> set (qualifying inst salaries) \<longleftrightarrow>
   sal \<in> set salaries \<and> sal_doc_id sal = role_doc_id inst \<and>
   sal_page_num sal = role_page_num inst \<and>
   dst = \<bar>role_match_start_idx inst - sal_match_start_idx sal\<bar> \<and> dst < 3000"
  by (auto simp: qualifying_filter)

lemma opportunity_of_no_match:
  assumes "best_salary inst salaries = None"
  shows "match_type (opportunity_of re_search salaries inst) = NO_MATCH"
    and "salario_valor (opportunity_of re_search salaries inst) = None"
    and "contexto_salario (opportunity_of re_search salaries inst) = None"
    and "salario_score (opportunity_of re_search salaries inst) = 0"
    and "distancia_chars (opportunity_of re_search salaries inst) = - 1"
    and "salario_formatado (opportunity_of re_search salaries inst) = nao_informado"
  using assms by (simp_all add: opportunity_of_def formatar_real_def Let_def)

lemma opportunity_of_match:
  assumes "best_salary inst salaries = Some (sal, dst)"
  shows "match_type (opportunity_of re_search salaries inst) = PAGE_PROXIMITY"
    and "salario_valor (opportunity_of re_search salaries inst) = Some (sal_canonical_value sal)"
    and "contexto_salario (opportunity_of re_search salaries inst) = Some (sal_evidence_text sal)"
    and "salario_score (opportunity_of re_search salaries inst) = sal_score sal"
    and "distancia_chars (opportunity_of re_search salaries inst) = dst"
  using assms by (simp_all add: opportunity_of_def Let_def)

lemma opportunity_of_key:
  "doc_id (opportunity_of re_search salaries inst) = role_doc_id inst"
  "page_num (opportunity_of re_search salaries inst) = role_page_num inst"
  by (simp_all add: opportunity_of_def Let_def)

lemma match_opportunities_set:
  "set (match_opportunities re_search candidates salaries) =
   opportunity_of re_search salaries ` set candidates"
  by (simp add: match_opportunities_def)

text \<open>
  C1. Every opportunity that the Matchmaker emits is the row of one role candidate. When
  its \<open>match_type\<close> is \<open>PAGE_PROXIMITY\<close>, a salary value is present, it is the value of a
  salary candidate with the role candidate's \<open>doc_id\<close> and \<open>page_num\<close>, and
  \<open>distancia_chars\<close> is the distance between the two offsets and at most 3000. When
  its \<open>match_type\<close> is \<open>NO_MATCH\<close>, the salary value is absent.
\<close>

theorem opportunity_invariant:
  assumes "opp \<in> set (match_opportunities re_search candidates salaries)"
  shows "\<exists>inst\<in>set candidates.
           opp = opportunity_of re_search salaries inst \<and>
           doc_id opp = role_doc_id inst \<and> page_num opp = role_page_num inst \<and>
           (match_type opp = PAGE_PROXIMITY \<longrightarrow>
              (\<exists>sal\<in>set salaries.
                 best_salary inst salaries = Some (sal, distancia_chars opp) \<and>
                 salario_valor opp = Some (sal_canonical_value sal) \<and>
                 sal_doc_id sal = role_doc_id inst \<and> sal_page_num sal = role_page_num inst \<and>
                 distancia_chars opp = \<bar>role_match_start_idx inst - sal_match_start_idx sal\<bar> \<and>
                 distancia_chars opp \<le> 3000)) \<and>
           (match_type opp = NO_MATCH \<longrightarrow> salario_valor opp = None)"
proof -
  from assms obtain inst where inst: "inst \<in> set candidates"
    and opp: "opp = opportunity_of re_search salaries inst"
    by (auto simp: match_opportunities_set)
  have key: "doc_id opp = role_doc_id inst" "page_num opp = role_page_num inst"
    by (simp_all add: opp opportunity_of_key)
  show ?thesis
  proof (cases "best_salary inst salaries")
    case None
    from opportunity_of_no_match [OF None, of re_search]
    have "match_type opp = NO_MATCH" "salario_valor opp = None" by (simp_all add: opp)
    with inst opp key show ?thesis by auto
  next
    case (Some best)
    obtain sal dst where best: "best = (sal, dst)" by (cases best)
    with Some have bs: "best_salary inst salaries = Some (sal, dst)" by simp
    from best_salary_Some [OF bs] have q: "sal \<in> set salaries"
      "sal_doc_id sal = role_doc_id inst" "sal_page_num sal = role_page_num inst"
      "dst = \<bar>role_match_start_idx inst - sal_match_start_idx sal\<bar>" "dst < 3000"
      by (simp_all add: qualifying_member)
    from opportunity_of_match [OF bs, of re_search]
    have f: "match_type opp = PAGE_PROXIMITY"
      "salario_valor opp = Some (sal_canonical_value sal)" "distancia_chars opp = dst"
      by (simp_all add: opp)
    have "\<exists>sal\<in>set salaries.
            best_salary inst salaries = Some (sal, distancia_chars opp) \<and>
            salario_valor opp = Some (sal_canonical_value sal) \<and>
            sal_doc_id sal = role_doc_id inst \<and> sal_page_num sal = role_page_num inst \<and>
            distancia_chars opp = \<bar>role_match_start_idx inst - sal_match_start_idx sal\<bar> \<and>
            distancia_chars opp \<le> 3000"
      using q f bs by (intro bexI [of _ sal]) auto
    with inst opp key f(1) show ?thesis by auto
  qed
qed

theorem opportunity_invariant_witness:
  "opportunity_of contains [ex_salary 1 200 5, ex_salary 1 2900 8] ex_role
     \<in> set (match_opportunities contains [ex_role] [ex_salary 1 200 5, ex_salary 1 2900 8]) \<and>
   (\<exists>inst\<in>set [ex_role].
      match_type (opportunity_of contains [ex_salary 1 200 5, ex_salary 1 2900 8] ex_role)
        = PAGE_PROXIMITY \<and>
      (\<exists>sal\<in>set [ex_salary 1 200 5, ex_salary 1 2900 8].
         salario_valor (opportunity_of contains [ex_salary 1 200 5, ex_salary 1 2900 8] ex_role)
           = Some (sal_canonical_value sal) \<and>
         sal_doc_id sal = role_doc_id inst \<and> sal_page_num sal = role_page_num inst \<and>
         distancia_chars (opportunity_of contains [ex_salary 1 200 5, ex_salary 1 2900 8] ex_role)
           \<le> 3000))"
proof -
  let ?sals = "[ex_salary 1 200 5, ex_salary 1 2900 8]"
  let ?opp = "opportunity_of contains ?sals ex_role"
  have h: "?opp \<in> set (match_opportunities contains [ex_role] ?sals)"
    by (simp add: match_opportunities_def)
  have m: "match_type ?opp = PAGE_PROXIMITY"
    by (simp add: opportunity_of_def Let_def best_salary_def qualifying_filter ex_role_def ex_salary_def)
  from opportunity_invariant [OF h] m h show ?thesis by auto
qed

text \<open>
  C2, as the code has it. The salary candidates that qualify for a role candidate are
  those of the same \<open>doc_id\<close> and \<open>page_num\<close> whose distance from the role's
  \<open>match_start_idx\<close> is below 3000, in the order of the salary table; a candidate at
  distance 3000 or more does not qualify.
\<close>

theorem qualifying_strictly_within_window:
  "map fst (qualifying inst salaries) =
   filter (\<lambda>sal. sal_doc_id sal = role_doc_id inst \<and> sal_page_num sal = role_page_num inst \<and>
                  \<bar>role_match_start_idx inst - sal_match_start_idx sal\<bar> < 3000) salaries"
  by (simp add: qualifying_filter o_def)

text \<open>
  A salary candidate of the role's page at distance 3000 exactly: it does not qualify,
  and the role is left without a match.
\<close>

theorem distance_3000_does_not_qualify:
  "sal_doc_id (ex_salary 1 3100 5) = role_doc_id ex_role \<and>
   sal_page_num (ex_salary 1 3100 5) = role_page_num ex_role \<and>
   \<bar>role_match_start_idx ex_role - sal_match_start_idx (ex_salary 1 3100 5)\<bar> = 3000 \<and>
   qualifying ex_role [ex_salary 1 3100 5] = [] \<and>
   match_type (opportunity_of contains [ex_salary 1 3100 5] ex_role) = NO_MATCH"
  by (simp add: opportunity_of_def Let_def best_salary_def qualifying_filter ex_role_def ex_salary_def)

text \<open>
  C3. When a role candidate has a qualifying salary candidate, the Matchmaker selects
  the qualifying row that comes first in the order: higher score, then smaller distance,
  then earlier position in the salary table it was given. In the example of the
  specification (role at offset 100, salaries at offset 200 with score 5 and at offset
  2900 with score 8, same page) the row at offset 2900 is selected.
\<close>

theorem best_salary_order:
  "(qualifying inst salaries \<noteq> [] \<longrightarrow>
      (\<exists>i<length salaries. \<exists>dst.
         best_salary inst salaries = Some (salaries ! i, dst) \<and>
         (salaries ! i, dst) \<in> set (qualifying inst salaries) \<and>
         (\<forall>j<length salaries. \<forall>d. (salaries ! j, d) \<in> set (qualifying inst salaries) \<longrightarrow>
            sal_score (salaries ! j) < sal_score (salaries ! i) \<or>
            sal_score (salaries ! j) = sal_score (salaries ! i) \<and> dst < d \<or>
            sal_score (salaries ! j) = sal_score (salaries ! i) \<and> dst = d \<and> i \<le> j))) \<and>
   best_salary ex_role [ex_salary 1 200 5, ex_salary 1 2900 8] = Some (ex_salary 1 2900 8, 2800)"
proof -
  have "best_salary ex_role [ex_salary 1 200 5, ex_salary 1 2900 8] =
        Some (ex_salary 1 2900 8, 2800)"
    by (simp add: best_salary_def qualifying_filter ex_role_def ex_salary_def)
  then show ?thesis using best_salary_least [of inst salaries] by blast
qed

theorem best_salary_order_witness:
  "qualifying ex_role [ex_salary 1 200 5, ex_salary 1 2900 5, ex_salary 1 0 5, ex_salary 2 100 8]
     \<noteq> [] \<and>
   best_salary ex_role [ex_salary 1 200 5, ex_salary 1 2900 5, ex_salary 1 0 5, ex_salary 2 100 8]
     = Some (ex_salary 1 200 5, 100)"
proof -
  let ?sals = "[ex_salary 1 200 5, ex_salary 1 2900 5, ex_salary 1 0 5, ex_salary 2 100 8]"
  have h: "qualifying ex_role ?sals \<noteq> []"
    by (simp add: qualifying_filter ex_role_def ex_salary_def)
  have b: "best_salary ex_role ?sals = Some (ex_salary 1 200 5, 100)"
    by (simp add: best_salary_def qualifying_filter ex_role_def ex_salary_def)
  from best_salary_order [of ex_role ?sals] h b show ?thesis by blast
qed

text \<open>
  C9. A role candidate without a qualifying salary candidate gives an opportunity with
  \<open>match_type = NO_MATCH\<close>, and every opportunity with \<open>match_type = NO_MATCH\<close> has no
  salary value and no salary evidence, score 0, distance \<open>-1\<close> and the display string
  \<open>nao_informado\<close>, the placeholder of \<open>formatar_real\<close> (N, a with tilde, o, a blank,
  Informado).
\<close>

theorem no_match_sentinels:
  "(\<forall>inst\<in>set candidates. qualifying inst salaries = [] \<longrightarrow>
      opportunity_of re_search salaries inst
        \<in> set (match_opportunities re_search candidates salaries) \<and>
      match_type (opportunity_of re_search salaries inst) = NO_MATCH) \<and>
   (\<forall>opp\<in>set (match_opportunities re_search candidates salaries).
      match_type opp = NO_MATCH \<longrightarrow>
        salario_valor opp = None \<and> contexto_salario opp = None \<and>
        salario_score opp = 0 \<and> distancia_chars opp = - 1 \<and>
        salario_formatado opp = ''N'' @ [CHR 0xE3] @ ''o Informado'')"
proof (intro conjI ballI impI)
  fix inst
  assume "inst \<in> set candidates" and q: "qualifying inst salaries = []"
  then show "opportunity_of re_search salaries inst
      \<in> set (match_opportunities re_search candidates salaries)"
    by (simp add: match_opportunities_set)
  from q have "best_salary inst salaries = None" by (simp add: best_salary_None)
  then show "match_type (opportunity_of re_search salaries inst) = NO_MATCH"
    by (rule opportunity_of_no_match)
next
  fix opp
  assume "opp \<in> set (match_opportunities re_search candidates salaries)"
    and nm: "match_type opp = NO_MATCH"
  then obtain inst where opp: "opp = opportunity_of re_search salaries inst"
    by (auto simp: match_opportunities_set)
  have none: "best_salary inst salaries = None"
  proof (cases "best_salary inst salaries")
    case None
    then show ?thesis .
  next
    case (Some best)
    obtain sal dst where "best = (sal, dst)" by (cases best)
    with Some have "best_salary inst salaries = Some (sal, dst)" by simp
    from opportunity_of_match(1) [OF this, of re_search] nm opp show ?thesis by simp
  qed
  from opportunity_of_no_match [OF none, of re_search]
  show "salario_valor opp = None" "contexto_salario opp = None" "salario_score opp = 0"
    "distancia_chars opp = - 1" "salario_formatado opp = ''N'' @ [CHR 0xE3] @ ''o Informado''"
    by (simp_all add: opp nao_informado_def)
qed

theorem no_match_sentinels_witness:
  "ex_role \<in> set [ex_role] \<and> qualifying ex_role [ex_salary 2 150 5] = [] \<and>
   opportunity_of contains [ex_salary 2 150 5] ex_role
     \<in> set (match_opportunities contains [ex_role] [ex_salary 2 150 5]) \<and>
   match_type (opportunity_of contains [ex_salary 2 150 5] ex_role) = NO_MATCH \<and>
   salario_valor (opportunity_of contains [ex_salary 2 150 5] ex_role) = None \<and>
   contexto_salario (opportunity_of contains [ex_salary 2 150 5] ex_role) = None \<and>
   salario_score (opportunity_of contains [ex_salary 2 150 5] ex_role) = 0 \<and>
   distancia_chars (opportunity_of contains [ex_salary 2 150 5] ex_role) = - 1 \<and>
   salario_formatado (opportunity_of contains [ex_salary 2 150 5] ex_role)
     = ''N'' @ [CHR 0xE3] @ ''o Informado''"
proof -
  have h: "ex_role \<in> set [ex_role]" by simp
  have q: "qualifying ex_role [ex_salary 2 150 5] = []"
    by (simp add: qualifying_filter ex_role_def ex_salary_def)
  from no_match_sentinels [of "[ex_role]" "[ex_salary 2 150 5]" contains] h q
  show ?thesis by auto
qed

subsection \<open>The salary extractor: guards and score\<close>

lemma salary_of_match_Some:
  assumes "salary_of_match doc source pn text m = Some row"
  shows "\<exists>int_part_raw v.
           group2 m = Some int_part_raw \<and> int_part_raw \<noteq> [] \<and>
           val_float int_part_raw (group3 m) = Some v \<and> min_val \<le> v \<and> v \<le> max_val \<and>
           (symbol_found m \<or> has_positive text m) \<and>
           sal_canonical_value row = v \<and>
           sal_score row =
             salary_score (symbol_found m) (has_positive text m) (has_negative text m) \<and>
           0 \<le> sal_score row"
  using assms
  by (auto simp: salary_of_match_def Let_def split: option.splits if_splits)

lemma salary_score_formula:
  "salary_score symbol positive negative =
   (if symbol then 2 else 0) + (if positive then 3 else 0) + (if negative then - 10 else 0)"
  by (simp add: salary_score_def)

lemma salary_of_match_negative_score:
  assumes "salary_score (symbol_found m) (has_positive text m) (has_negative text m) < 0"
  shows "salary_of_match doc source pn text m = None"
  using assms
  by (auto simp: salary_of_match_def Let_def split: option.splits)

lemma salary_of_match_no_support:
  assumes "\<not> symbol_found m" and "\<not> has_positive text m"
  shows "salary_of_match doc source pn text m = None"
  using assms
  by (auto simp: salary_of_match_def Let_def split: option.splits)

lemma salary_of_match_accept:
  assumes "group2 m = Some int_part_raw" and "int_part_raw \<noteq> []"
    and "val_float int_part_raw (group3 m) = Some v" and "min_val \<le> v" and "v \<le> max_val"
    and "symbol_found m \<or> has_positive tx m"
    and "0 \<le> salary_score (symbol_found m) (has_positive tx m) (has_negative tx m)"
  shows "\<exists>row. salary_of_match doc source pn tx m = Some row \<and>
           sal_canonical_value row = v \<and>
           sal_score row =
             salary_score (symbol_found m) (has_positive tx m) (has_negative tx m)"
  using assms by (auto simp: salary_of_match_def Let_def)

lemma ex_taxa_tests:
  "symbol_found ex_match_taxa" "\<not> has_positive ex_text_taxa ex_match_taxa"
  "has_negative ex_text_taxa ex_match_taxa"
  by code_simp+

lemma ex_8500_tests:
  "symbol_found ex_match_8500" "has_positive ex_text_8500 ex_match_8500"
  "\<not> has_negative ex_text_8500 ex_match_8500"
  by code_simp+

lemma ex_3500_tests:
  "\<not> symbol_found ex_match_3500" "has_positive ex_text_3500 ex_match_3500"
  "\<not> has_negative ex_text_3500 ex_match_3500"
  by code_simp+

lemma ex_2025_tests:
  "\<not> symbol_found ex_match_2025" "\<not> has_positive ex_text_2025 ex_match_2025"
  by code_simp+

lemma ex_amounts:
  "val_float ''3500'' None = Some 3500"
  "val_float ''2025'' None = Some 2025"
  "val_float ''8.500'' (Some ''00'') = Some 8500"
  "val_float ''1.500'' (Some ''00'') = Some 1500"
  by (simp_all add: val_float_def py_float_def is_digit_def digits_value_def)

text \<open>
  C5. The score of a match is 2 for the currency marker, plus 3 for a positive keyword in
  the normalised context, minus 10 for a negative keyword there; a row that is appended
  carries this score, and a match whose score is negative is rejected. With the currency
  marker, no positive keyword and a negative keyword the score is \<open>2 - 10 = -8\<close> and the
  match is rejected.
\<close>

theorem score_and_rejection:
  "salary_score symbol positive negative =
     (if symbol then 2 else 0) + (if positive then 3 else 0) + (if negative then - 10 else 0) \<and>
   (salary_of_match doc source pn text m = Some row \<longrightarrow>
      sal_score row =
        salary_score (symbol_found m) (has_positive text m) (has_negative text m) \<and>
      0 \<le> sal_score row) \<and>
   (salary_score (symbol_found m) (has_positive text m) (has_negative text m) < 0 \<longrightarrow>
      salary_of_match doc source pn text m = None) \<and>
   (symbol_found m \<and> \<not> has_positive text m \<and> has_negative text m \<longrightarrow>
      salary_score (symbol_found m) (has_positive text m) (has_negative text m) = - 8 \<and>
      salary_of_match doc source pn text m = None)"
proof (intro conjI impI)
  show "salary_score symbol positive negative =
     (if symbol then 2 else 0) + (if positive then 3 else 0) + (if negative then - 10 else 0)"
    by (rule salary_score_formula)
next
  assume "salary_of_match doc source pn text m = Some row"
  from salary_of_match_Some [OF this]
  show "sal_score row =
      salary_score (symbol_found m) (has_positive text m) (has_negative text m)"
    and "0 \<le> sal_score row" by auto
next
  assume "salary_score (symbol_found m) (has_positive text m) (has_negative text m) < 0"
  then show "salary_of_match doc source pn text m = None"
    by (rule salary_of_match_negative_score)
next
  assume a: "symbol_found m \<and> \<not> has_positive text m \<and> has_negative text m"
  then show s: "salary_score (symbol_found m) (has_positive text m) (has_negative text m) = - 8"
    by (simp add: salary_score_def)
  then have "salary_score (symbol_found m) (has_positive text m) (has_negative text m) < 0"
    by simp
  then show "salary_of_match doc source pn text m = None"
    by (rule salary_of_match_negative_score)
qed

theorem score_and_rejection_witness:
  "is_salary_match ex_text_taxa ex_match_taxa \<and>
   symbol_found ex_match_taxa \<and> \<not> has_positive ex_text_taxa ex_match_taxa \<and>
   has_negative ex_text_taxa ex_match_taxa \<and>
   salary_score (symbol_found ex_match_taxa) (has_positive ex_text_taxa ex_match_taxa)
     (has_negative ex_text_taxa ex_match_taxa) = - 8 \<and>
   salary_of_match ''edital-01'' ''osesp'' 1 ex_text_taxa ex_match_taxa = None \<and>
   is_salary_match ex_text_8500 ex_match_8500 \<and>
   map_option sal_score (salary_of_match ''edital-01'' ''osesp'' 1 ex_text_8500 ex_match_8500)
     = Some 5"
proof -
  have w: "is_salary_match ex_text_taxa ex_match_taxa" "is_salary_match ex_text_8500 ex_match_8500"
    by code_simp+
  have r: "map_option sal_score
      (salary_of_match ''edital-01'' ''osesp'' 1 ex_text_8500 ex_match_8500) = Some 5"
    using salary_of_match_accept [where m = ex_match_8500 and int_part_raw = "''8.500''"
        and v = 8500 and tx = ex_text_8500 and doc = "''edital-01''" and source = "''osesp''" and pn = 1] ex_8500_tests
    by (auto simp: ex_match_8500_def ex_amounts min_val_def max_val_def salary_score_def)
  from score_and_rejection [of True False True "''edital-01''" "''osesp''" 1 ex_text_taxa
      ex_match_taxa undefined] ex_taxa_tests w r
  show ?thesis by simp
qed

text \<open>
  C6. A match whose amount lies in [1900, 2100], whose digits are unformatted, that has no
  currency marker and no positive keyword in its context is rejected. So is the bare
  token 2025 whenever it has no currency marker and no positive keyword in its context.
\<close>

theorem calendar_year_rejected:
  "(group2 m = Some int_part_raw \<and> val_float int_part_raw (group3 m) = Some v \<and>
    1900 \<le> v \<and> v \<le> 2100 \<and> is_raw_number int_part_raw (group3 m) \<and>
    \<not> symbol_found m \<and> \<not> has_positive text m \<longrightarrow>
      salary_of_match doc source pn text m = None) \<and>
   (group1 m = None \<and> group2 m = Some ''2025'' \<and> group3 m = None \<and>
    \<not> has_positive text m \<longrightarrow>
      val_float ''2025'' (group3 m) = Some 2025 \<and>
      salary_of_match doc source pn text m = None)"
proof (intro conjI impI)
  assume "group2 m = Some int_part_raw \<and> val_float int_part_raw (group3 m) = Some v \<and>
    1900 \<le> v \<and> v \<le> 2100 \<and> is_raw_number int_part_raw (group3 m) \<and>
    \<not> symbol_found m \<and> \<not> has_positive text m"
  then show "salary_of_match doc source pn text m = None"
    by (simp add: salary_of_match_no_support)
next
  assume a: "group1 m = None \<and> group2 m = Some ''2025'' \<and> group3 m = None \<and>
    \<not> has_positive text m"
  then show "val_float ''2025'' (group3 m) = Some 2025" by (simp add: ex_amounts)
  from a have "\<not> symbol_found m" by (simp add: symbol_found_def)
  with a show "salary_of_match doc source pn text m = None"
    by (simp add: salary_of_match_no_support)
qed

theorem calendar_year_rejected_witness:
  "is_salary_match ex_text_2025 ex_match_2025 \<and>
   group1 ex_match_2025 = None \<and> group2 ex_match_2025 = Some ''2025'' \<and>
   group3 ex_match_2025 = None \<and> val_float ''2025'' (group3 ex_match_2025) = Some 2025 \<and>
   is_raw_number ''2025'' (group3 ex_match_2025) \<and>
   \<not> symbol_found ex_match_2025 \<and> \<not> has_positive ex_text_2025 ex_match_2025 \<and>
   salary_of_match ''edital-01'' ''osesp'' 1 ex_text_2025 ex_match_2025 = None"
proof -
  have w: "is_salary_match ex_text_2025 ex_match_2025" by code_simp
  have g: "group1 ex_match_2025 = None" "group2 ex_match_2025 = Some ''2025''"
    "group3 ex_match_2025 = None" by (simp_all add: ex_match_2025_def)
  have n: "is_raw_number ''2025'' (group3 ex_match_2025)"
    by (simp add: is_raw_number_def ex_match_2025_def)
  from calendar_year_rejected [of ex_match_2025 "''2025''" 2025 ex_text_2025 "''edital-01''"
      "''osesp''" 1] w g n ex_2025_tests ex_amounts(2)
  show ?thesis by simp
qed

text \<open>
  C7. A match without a currency marker is accepted only if its digits are grouped or
  have a fractional part, or a positive keyword occurs in the normalised context. The
  bare token 3500 after the words \<open>salario mensal\<close> is accepted, with the amount 3500.
\<close>

theorem no_marker_needs_support:
  "(salary_of_match doc source pn text m = Some row \<and> \<not> symbol_found m \<longrightarrow>
      (\<exists>int_part_raw. group2 m = Some int_part_raw \<and>
         (has_format int_part_raw (group3 m) \<or> has_positive text m))) \<and>
   map_option sal_canonical_value
     (salary_of_match ''edital-01'' ''osesp'' 1 ex_text_3500 ex_match_3500) = Some 3500"
proof (intro conjI impI)
  assume "salary_of_match doc source pn text m = Some row \<and> \<not> symbol_found m"
  with salary_of_match_Some [of doc source pn "text" m row]
  show "\<exists>int_part_raw. group2 m = Some int_part_raw \<and>
         (has_format int_part_raw (group3 m) \<or> has_positive text m)" by auto
next
  show "map_option sal_canonical_value
     (salary_of_match ''edital-01'' ''osesp'' 1 ex_text_3500 ex_match_3500) = Some 3500"
    using salary_of_match_accept [where m = ex_match_3500 and int_part_raw = "''3500''"
        and v = 3500 and tx = ex_text_3500 and doc = "''edital-01''" and source = "''osesp''" and pn = 1] ex_3500_tests
    by (auto simp: ex_match_3500_def ex_amounts min_val_def max_val_def salary_score_def)
qed

theorem no_marker_needs_support_witness:
  "is_salary_match ex_text_3500 ex_match_3500 \<and>
   map_option sal_canonical_value
     (salary_of_match ''edital-01'' ''osesp'' 1 ex_text_3500 ex_match_3500) = Some 3500 \<and>
   \<not> symbol_found ex_match_3500 \<and>
   \<not> has_format ''3500'' (group3 ex_match_3500) \<and>
   has_positive ex_text_3500 ex_match_3500"
proof -
  have w: "is_salary_match ex_text_3500 ex_match_3500" by code_simp
  have f: "\<not> has_format ''3500'' (group3 ex_match_3500)"
    by (simp add: has_format_def ex_match_3500_def)
  from no_marker_needs_support [of "''edital-01''" "''osesp''" 1 ex_text_3500 ex_match_3500]
    w f ex_3500_tests
  show ?thesis by simp
qed

subsection \<open>The role extractor: loops, skipped pages, skipped patterns\<close>

lemma collect_rows_skip:
  assumes "\<And>x. skip x \<Longrightarrow> body x = Inr []"
  shows "collect_rows body (filter (\<lambda>x. \<not> skip x) xs) = collect_rows body xs"
proof (induction xs)
  case Nil
  then show ?case by simp
next
  case (Cons x xs)
  show ?case
  proof (cases "skip x")
    case True
    with assms have "body x = Inr []" by simp
    with True Cons show ?thesis by (simp split: sum.splits)
  next
    case False
    with Cons show ?thesis by (simp split: sum.splits)
  qed
qed

lemma collect_rows_cong:
  assumes "\<And>x. x \<in> set xs \<Longrightarrow> f x = g x"
  shows "collect_rows f xs = collect_rows g xs"
  using assms by (induction xs) (simp_all split: sum.splits)

lemma collect_rows_raises:
  assumes "x \<in> set xs" and "isl (body x)"
  shows "isl (collect_rows body xs)"
  using assms by (induction xs) (auto split: sum.splits)

lemma page_instruments_no_page_num:
  "pg_page_num row = None \<Longrightarrow> page_instruments finditer taxonomy row = Inr []"
  by (simp add: page_instruments_def)

lemma page_salaries_no_page_num:
  "pg_page_num row = None \<Longrightarrow> page_salaries salary_finditer row = []"
  by (simp add: page_salaries_def)

lemma extracted_roles_with_page_num:
  "extracted_roles finditer taxonomy (with_page_num silver_data) =
   extracted_roles finditer taxonomy silver_data"
  unfolding extracted_roles_def with_page_num_def
  using collect_rows_skip [where skip = "\<lambda>row. pg_page_num row = None"
      and body = "page_instruments finditer taxonomy" and xs = silver_data]
  by (simp add: page_instruments_no_page_num)

lemma extracted_salaries_with_page_num:
  "extracted_salaries salary_finditer (with_page_num silver_data) =
   extracted_salaries salary_finditer silver_data"
  unfolding extracted_salaries_def
  by (induction silver_data) (auto simp: with_page_num_def page_salaries_no_page_num)

lemma pattern_rows_re_error:
  "finditer (regex_pattern p) text_original = Inl re_error \<Longrightarrow>
   pattern_rows finditer doc source pn text_original canonical p = Inr []"
  by (simp add: pattern_rows_def)

lemma pattern_rows_raises:
  "finditer (regex_pattern p) text_original = Inl exc \<Longrightarrow> exc \<noteq> re_error \<Longrightarrow>
   pattern_rows finditer doc source pn text_original canonical p = Inl exc"
  by (simp add: pattern_rows_def)

lemma page_instruments_without_pattern:
  assumes "finditer (regex_pattern p) (pg_full_text row) = Inl re_error"
  shows "page_instruments finditer (without_pattern p taxonomy) row =
         page_instruments finditer taxonomy row"
proof (cases "pg_page_num row")
  case None
  then show ?thesis by (simp add: page_instruments_def)
next
  case (Some pn)
  define body where "body = pattern_rows finditer (pg_doc_id row) (pg_source_name row) pn
    (pg_full_text row)"
  have one: "collect_rows (body canonical) (filter (\<lambda>q. q \<noteq> p) patterns) =
             collect_rows (body canonical) patterns" for canonical patterns
    using collect_rows_skip [where skip = "\<lambda>q. q = p" and body = "body canonical"
        and xs = patterns] assms
    by (simp add: body_def pattern_rows_def)
  have "collect_rows (\<lambda>(canonical, patterns). collect_rows (body canonical) patterns)
          (without_pattern p taxonomy) =
        collect_rows (\<lambda>(canonical, patterns). collect_rows (body canonical) patterns) taxonomy"
    unfolding without_pattern_def
    by (induction taxonomy) (auto simp: one split: sum.splits)
  then show ?thesis by (simp add: page_instruments_def Some body_def)
qed

lemma extracted_roles_without_pattern:
  assumes "\<forall>row\<in>set silver_data. finditer (regex_pattern p) (pg_full_text row) = Inl re_error"
  shows "extracted_roles finditer (without_pattern p taxonomy) silver_data =
         extracted_roles finditer taxonomy silver_data"
  unfolding extracted_roles_def
  using assms by (intro collect_rows_cong page_instruments_without_pattern) simp

lemma page_instruments_raises:
  assumes "pg_page_num row = Some pn" and "(canonical, patterns) \<in> set taxonomy"
    and "p \<in> set patterns"
    and "finditer (regex_pattern p) (pg_full_text row) = Inl exc" and "exc \<noteq> re_error"
  shows "isl (page_instruments finditer taxonomy row)"
proof -
  define body where "body = pattern_rows finditer (pg_doc_id row) (pg_source_name row) pn
    (pg_full_text row)"
  from assms(4,5) have "isl (body canonical p)"
    by (simp add: body_def pattern_rows_def)
  with assms(3) have "isl (collect_rows (body canonical) patterns)"
    by (rule collect_rows_raises)
  then have "isl ((\<lambda>(canonical, patterns). collect_rows (body canonical) patterns)
      (canonical, patterns))" by simp
  with assms(2)
  have "isl (collect_rows (\<lambda>(canonical, patterns). collect_rows (body canonical) patterns)
      taxonomy)"
    by (rule collect_rows_raises)
  then show ?thesis by (simp add: page_instruments_def assms(1) body_def)
qed

lemma ex_fagote_rows:
  "extracted_roles ex_finditer (without_pattern ''fagote{4294967296}'' ex_taxonomy_overflow)
     [ex_page (Some 1) ''fagote e fagotista''] = Inr [ex_row_fagote, ex_row_fagotista]"
  "extracted_roles ex_finditer ex_taxonomy_overflow [ex_page (Some 1) ''fagote e fagotista'']
     = Inl OverflowError"
  "ex_finditer (regex_pattern ''fagote{4294967296}'') ''fagote e fagotista'' = Inl OverflowError"
  "extracted_roles ex_finditer ex_taxonomy [ex_page (Some 1) ''fagote e fagotista'']
     = Inr [ex_row_fagote, ex_row_fagotista]"
  by code_simp+

text \<open>
  C8, as the code has it. When one pattern of the taxonomy raises \<open>re.error\<close> on the
  pages, it adds no row, and what is extracted, before and after deduplication, is what
  the taxonomy without that pattern gives: the other patterns of the role, the other
  roles and the other pages are processed as if the pattern were absent. A pattern that
  raises another exception on a page with a page number is not skipped: the exception
  ends the extraction.
\<close>

theorem re_error_pattern_skipped:
  "((\<forall>row\<in>set silver_data. finditer (regex_pattern p) (pg_full_text row) = Inl re_error) \<longrightarrow>
     (\<forall>row\<in>set silver_data. \<forall>pn canonical.
        pattern_rows finditer (pg_doc_id row) (pg_source_name row) pn (pg_full_text row)
          canonical p = Inr []) \<and>
     extracted_roles finditer taxonomy silver_data =
       extracted_roles finditer (without_pattern p taxonomy) silver_data \<and>
     extract_instruments finditer sort_values taxonomy silver_data =
       extract_instruments finditer sort_values (without_pattern p taxonomy) silver_data) \<and>
   (row \<in> set silver_data \<and> pg_page_num row = Some pn \<and>
    (canonical, patterns) \<in> set taxonomy \<and> q \<in> set patterns \<and>
    finditer (regex_pattern q) (pg_full_text row) = Inl exc \<and> exc \<noteq> re_error \<longrightarrow>
      isl (extracted_roles finditer taxonomy silver_data) \<and>
      isl (extract_instruments finditer sort_values taxonomy silver_data))"
proof (intro conjI impI)
  assume a: "\<forall>row\<in>set silver_data. finditer (regex_pattern p) (pg_full_text row) = Inl re_error"
  then show "\<forall>row\<in>set silver_data. \<forall>pn canonical.
        pattern_rows finditer (pg_doc_id row) (pg_source_name row) pn (pg_full_text row)
          canonical p = Inr []"
    by (simp add: pattern_rows_def)
  from a show e: "extracted_roles finditer taxonomy silver_data =
       extracted_roles finditer (without_pattern p taxonomy) silver_data"
    by (rule extracted_roles_without_pattern [symmetric])
  then show "extract_instruments finditer sort_values taxonomy silver_data =
       extract_instruments finditer sort_values (without_pattern p taxonomy) silver_data"
    by (simp add: extract_instruments_def)
next
  assume b: "row \<in> set silver_data \<and> pg_page_num row = Some pn \<and>
    (canonical, patterns) \<in> set taxonomy \<and> q \<in> set patterns \<and>
    finditer (regex_pattern q) (pg_full_text row) = Inl exc \<and> exc \<noteq> re_error"
  then have "isl (page_instruments finditer taxonomy row)"
    by (intro page_instruments_raises [where pn = pn and canonical = canonical
          and patterns = patterns and p = q and exc = exc]) simp_all
  with b show r: "isl (extracted_roles finditer taxonomy silver_data)"
    unfolding extracted_roles_def by (intro collect_rows_raises [where x = row]) simp_all
  then show "isl (extract_instruments finditer sort_values taxonomy silver_data)"
    by (cases "extracted_roles finditer taxonomy silver_data")
      (simp_all add: extract_instruments_def)
qed

lemma ex_failing_pattern:
  "map (\<lambda>row. ex_finditer (regex_pattern ''fag['') (pg_full_text row)) ex_silver_data
     = [Inl re_error, Inl re_error, Inl re_error]"
  "without_pattern ''fag['' ex_taxonomy
     = [(''Fagote'', [''fagote'', ''fagotista'']), (''Tuba'', [''tuba''])]"
  "map_sum id (map role_raw_value)
     (extracted_roles ex_finditer (without_pattern ''fag['' ex_taxonomy) ex_silver_data)
     = Inr [''fagote'', ''fagotista'', ''fagote'', ''tuba'']"
  by code_simp+

theorem re_error_pattern_skipped_witness:
  "map (\<lambda>row. ex_finditer (regex_pattern ''fag['') (pg_full_text row)) ex_silver_data
     = [Inl re_error, Inl re_error, Inl re_error] \<and>
   extracted_roles ex_finditer ex_taxonomy ex_silver_data =
     extracted_roles ex_finditer (without_pattern ''fag['' ex_taxonomy) ex_silver_data \<and>
   map_sum id (map role_raw_value) (extracted_roles ex_finditer ex_taxonomy ex_silver_data)
     = Inr [''fagote'', ''fagotista'', ''fagote'', ''tuba''] \<and>
   ex_finditer (regex_pattern ''fagote{4294967296}'') ''fagote e fagotista'' = Inl OverflowError \<and>
   isl (extracted_roles ex_finditer ex_taxonomy_overflow
          [ex_page (Some 1) ''fagote e fagotista''])"
proof -
  have "list_all (\<lambda>row. ex_finditer (regex_pattern ''fag['') (pg_full_text row) = Inl re_error)
          ex_silver_data"
    by code_simp
  then have h: "\<forall>row\<in>set ex_silver_data.
      ex_finditer (regex_pattern ''fag['') (pg_full_text row) = Inl re_error"
    by (simp add: list_all_iff)
  from re_error_pattern_skipped [where silver_data = ex_silver_data and finditer = ex_finditer
      and p = "''fag[''" and taxonomy = ex_taxonomy] h
  have e: "extracted_roles ex_finditer ex_taxonomy ex_silver_data =
     extracted_roles ex_finditer (without_pattern ''fag['' ex_taxonomy) ex_silver_data"
    by blast
  have o: "isl (extracted_roles ex_finditer ex_taxonomy_overflow
          [ex_page (Some 1) ''fagote e fagotista''])"
    by (simp add: ex_fagote_rows(2))
  from e o ex_failing_pattern(1,3) ex_fagote_rows(3) show ?thesis by simp
qed

text \<open>
  A pattern whose repetition count is too large fails to compile with \<open>OverflowError\<close>,
  which line 159 does not catch: the extraction ends with the exception, while the
  taxonomy without the pattern gives the two rows of the page.
\<close>

theorem overflow_pattern_not_skipped:
  "ex_finditer (regex_pattern ''fagote{4294967296}'') ''fagote e fagotista'' = Inl OverflowError \<and>
   extracted_roles ex_finditer ex_taxonomy_overflow [ex_page (Some 1) ''fagote e fagotista'']
     = Inl OverflowError \<and>
   extracted_roles ex_finditer (without_pattern ''fagote{4294967296}'' ex_taxonomy_overflow)
     [ex_page (Some 1) ''fagote e fagotista''] = Inr [ex_row_fagote, ex_row_fagotista]"
  by (simp add: ex_fagote_rows)

text \<open>
  C10. A row of the page table whose page number is missing or is not a number adds no
  role row and no salary row and raises nothing, and both extractors give what they give
  on the table without such rows.
\<close>

theorem page_without_number_skipped:
  "(pg_page_num row = None \<longrightarrow>
      page_instruments finditer taxonomy row = Inr [] \<and>
      page_salaries salary_finditer row = []) \<and>
   extracted_roles finditer taxonomy silver_data =
     extracted_roles finditer taxonomy (with_page_num silver_data) \<and>
   extract_instruments finditer role_sort taxonomy silver_data =
     extract_instruments finditer role_sort taxonomy (with_page_num silver_data) \<and>
   extracted_salaries salary_finditer silver_data =
     extracted_salaries salary_finditer (with_page_num silver_data) \<and>
   extract_salaries salary_finditer salary_sort silver_data =
     extract_salaries salary_finditer salary_sort (with_page_num silver_data)"
  by (simp add: page_instruments_no_page_num page_salaries_no_page_num
      extracted_roles_with_page_num extracted_salaries_with_page_num
      extract_instruments_def extract_salaries_def)

lemma ex_page_salary:
  "page_salaries ex_salary_finditer (ex_page (Some 2) ''tuba: R$ 9.000,00'') \<noteq> []"
proof -
  let ?m = "\<lparr> group1 = Some ''R$ '', group2 = Some ''9.000'', group3 = Some ''00'',
              span_start = 6, span_end = 17 \<rparr>"
  have t: "symbol_found ?m" "\<not> has_negative ''tuba: R$ 9.000,00'' ?m"
    "\<not> has_positive ''tuba: R$ 9.000,00'' ?m"
    by code_simp+
  have v: "val_float ''9.000'' (Some ''00'') = Some 9000"
    by (simp add: val_float_def py_float_def is_digit_def digits_value_def)
  from salary_of_match_accept [where m = ?m and int_part_raw = "''9.000''" and v = 9000
      and tx = "''tuba: R$ 9.000,00''" and doc = "''edital-01''" and source = "''osesp''"
      and pn = 2] t v
  obtain row where "salary_of_match ''edital-01'' ''osesp'' 2 ''tuba: R$ 9.000,00'' ?m = Some row"
    by (auto simp: min_val_def max_val_def salary_score_def)
  then show ?thesis
    by (simp add: page_salaries_def ex_page_def ex_salary_finditer_def List.map_filter_simps)
qed

lemma ex_pages_tests:
  "page_instruments ex_finditer ex_taxonomy (ex_page (Some 2) ''tuba: R$ 9.000,00'') \<noteq> Inr []"
  "with_page_num ex_silver_data
     = [ex_page (Some 1) ''fagote e fagotista'', ex_page (Some 3) ''tuba e fagote'']"
  by code_simp+

theorem page_without_number_skipped_witness:
  "pg_page_num (ex_page None ''tuba: R$ 9.000,00'') = None \<and>
   page_instruments ex_finditer ex_taxonomy (ex_page None ''tuba: R$ 9.000,00'') = Inr [] \<and>
   page_salaries ex_salary_finditer (ex_page None ''tuba: R$ 9.000,00'') = [] \<and>
   page_instruments ex_finditer ex_taxonomy (ex_page (Some 2) ''tuba: R$ 9.000,00'') \<noteq> Inr [] \<and>
   page_salaries ex_salary_finditer (ex_page (Some 2) ''tuba: R$ 9.000,00'') \<noteq> [] \<and>
   extracted_roles ex_finditer ex_taxonomy ex_silver_data =
     extracted_roles ex_finditer ex_taxonomy
       [ex_page (Some 1) ''fagote e fagotista'', ex_page (Some 3) ''tuba e fagote'']"
proof -
  have h: "pg_page_num (ex_page None ''tuba: R$ 9.000,00'') = None"
    by (simp add: ex_page_def)
  from page_without_number_skipped [of "ex_page None ''tuba: R$ 9.000,00''" ex_finditer
      ex_taxonomy ex_salary_finditer ex_silver_data] h ex_pages_tests ex_page_salary
  show ?thesis by simp
qed

subsection \<open>Deduplication of the role rows\<close>

text \<open>
  What lines 161-166 give whatever order \<open>sort_values\<close> leaves between rows of equal
  length: of the rows with one \<open>(doc_id, page_num, canonical_value)\<close> exactly one is kept,
  the first of them in the sorted table, and no row of the group has a longer evidence
  text.
\<close>

lemma drop_duplicates_filter:
  "filter (\<lambda>x. key x = k) (drop_duplicates key xs) = take 1 (filter (\<lambda>x. key x = k) xs)"
proof (induction key xs rule: drop_duplicates.induct)
  case (1 key)
  then show ?case by simp
next
  case (2 key x xs)
  show ?case
  proof (cases "key x = k")
    case True
    then have "filter (\<lambda>y. key y = k) (filter (\<lambda>y. key y \<noteq> key x) xs) = []"
      by (auto simp: filter_empty_conv)
    with 2 True show ?thesis by simp
  next
    case False
    then have "filter (\<lambda>y. key y = k) (filter (\<lambda>y. key y \<noteq> key x) xs) =
               filter (\<lambda>y. key y = k) xs"
      by (auto intro: filter_cong)
    with 2 False show ?thesis by simp
  qed
qed

lemma sorted_desc_hd_filter:
  fixes f :: "'a \<Rightarrow> 'b::linorder"
  assumes "sorted_wrt (\<lambda>a b. f b \<le> f a) ys" and "y \<in> set ys" and "P y"
  shows "f y \<le> f (hd (filter P ys))"
proof -
  from assms(1) have s: "sorted_wrt (\<lambda>a b. f b \<le> f a) (filter P ys)"
    by (rule sorted_wrt_filter)
  from assms(2,3) have mem: "y \<in> set (filter P ys)" by simp
  then obtain z zs where eq: "filter P ys = z # zs" by (cases "filter P ys") auto
  with s mem show ?thesis by auto
qed

lemma deduplicate_longest:
  assumes perm: "mset (sort_values evidence_len rows) = mset rows"
    and desc: "sorted_wrt (\<lambda>a b. evidence_len b \<le> evidence_len a) (sort_values evidence_len rows)"
    and r: "r \<in> set rows"
  shows "\<exists>kept\<in>set rows.
           filter (\<lambda>x. dedup_key x = dedup_key r) (deduplicate sort_values rows) = [kept] \<and>
           kept = hd (filter (\<lambda>x. dedup_key x = dedup_key r) (sort_values evidence_len rows)) \<and>
           (\<forall>x\<in>set rows. dedup_key x = dedup_key r \<longrightarrow> evidence_len x \<le> evidence_len kept)"
proof -
  define ys where "ys = sort_values evidence_len rows"
  define K where "K = (\<lambda>x :: role_candidate. dedup_key x = dedup_key r)"
  from perm have sets: "set ys = set rows" unfolding ys_def by (rule mset_eq_setD)
  from r have ne: "rows \<noteq> []" by auto
  from r sets have "r \<in> set (filter K ys)" by (simp add: K_def)
  then obtain kept rest where eq: "filter K ys = kept # rest" by (cases "filter K ys") auto
  then have "kept \<in> set (filter K ys)" by simp
  with sets have kept: "kept \<in> set rows" by simp
  have one: "filter K (deduplicate sort_values rows) = [kept]"
    using ne eq unfolding deduplicate_def K_def ys_def by (simp add: drop_duplicates_filter)
  have hd: "kept = hd (filter K ys)" using eq by simp
  have "evidence_len x \<le> evidence_len kept" if "x \<in> set rows" "K x" for x
    unfolding hd using desc that sets unfolding ys_def [symmetric]
    by (intro sorted_desc_hd_filter) auto
  with kept one hd show ?thesis unfolding K_def ys_def by blast
qed

lemma deduplicate_in_row_order:
  assumes perm: "mset (sort_values evidence_len rows) = mset rows"
    and desc: "sorted_wrt (\<lambda>a b. evidence_len b \<le> evidence_len a) (sort_values evidence_len rows)"
    and stab: "\<forall>k. filter (\<lambda>y. evidence_len y = k) (sort_values evidence_len rows) =
                  filter (\<lambda>y. evidence_len y = k) rows"
    and r: "r \<in> set rows"
  shows "\<exists>i<length rows.
           filter (\<lambda>x. dedup_key x = dedup_key r) (deduplicate sort_values rows) = [rows ! i] \<and>
           (\<forall>j<length rows. dedup_key (rows ! j) = dedup_key r \<longrightarrow>
              evidence_len (rows ! j) < evidence_len (rows ! i) \<or>
              evidence_len (rows ! j) = evidence_len (rows ! i) \<and> i \<le> j)"
proof -
  define ys where "ys = sort_values evidence_len rows"
  define K where "K = (\<lambda>x :: role_candidate. dedup_key x = dedup_key r)"
  from deduplicate_longest [where sort_values = sort_values and rows = rows and r = r]
    perm desc r obtain kept where
    kept: "kept \<in> set rows" and one: "filter K (deduplicate sort_values rows) = [kept]"
    and hd: "kept = hd (filter K ys)"
    and longest: "\<forall>x\<in>set rows. K x \<longrightarrow> evidence_len x \<le> evidence_len kept"
    unfolding K_def ys_def by blast
  define Q where "Q = (\<lambda>x :: role_candidate. K x \<and> evidence_len x = evidence_len kept)"
  from perm have sets: "set ys = set rows" unfolding ys_def by (rule mset_eq_setD)
  from r sets have "filter K ys \<noteq> []" by (auto simp: K_def filter_empty_conv)
  then obtain rest where eq: "filter K ys = kept # rest" using hd by (cases "filter K ys") auto
  have "filter Q ys = filter (\<lambda>x. evidence_len x = evidence_len kept) (filter K ys)"
    by (simp add: Q_def)
  also have "\<dots> = kept # filter (\<lambda>x. evidence_len x = evidence_len kept) rest"
    unfolding eq by simp
  finally have hdQ: "hd (filter Q ys) = kept" by simp
  have "filter Q ys = filter K (filter (\<lambda>x. evidence_len x = evidence_len kept) ys)"
    unfolding Q_def filter_filter by (rule filter_cong) auto
  also have "\<dots> = filter K (filter (\<lambda>x. evidence_len x = evidence_len kept) rows)"
    using stab unfolding ys_def by simp
  also have "\<dots> = filter Q rows"
    unfolding Q_def filter_filter by (rule filter_cong) auto
  finally have same: "filter Q ys = filter Q rows" .
  from kept eq have "K kept" by (metis filter_eq_ConsD)
  with kept have "filter Q rows \<noteq> []" by (auto simp: Q_def filter_empty_conv)
  from hd_filter_index [OF this] obtain i where i: "i < length rows"
    "rows ! i = hd (filter Q rows)" "\<forall>j<i. \<not> Q (rows ! j)" by blast
  from i(2) same hdQ have ri: "rows ! i = kept" by simp
  have "evidence_len (rows ! j) < evidence_len (rows ! i) \<or>
        evidence_len (rows ! j) = evidence_len (rows ! i) \<and> i \<le> j"
    if j: "j < length rows" and Kj: "K (rows ! j)" for j
  proof (cases "evidence_len (rows ! j) = evidence_len kept")
    case True
    with Kj have "Q (rows ! j)" by (simp add: Q_def)
    with i(3) have "i \<le> j" by (meson not_le)
    with True ri show ?thesis by simp
  next
    case False
    from longest j Kj have "evidence_len (rows ! j) \<le> evidence_len kept" by simp
    with False ri show ?thesis by simp
  qed
  with i(1) one ri show ?thesis unfolding K_def by blast
qed

text \<open>
  C4, as the code has it. Of the raw role rows with one \<open>(doc_id, page_num,
  canonical_value)\<close>, deduplication keeps exactly one: the first of them in the table that
  \<open>sort_values\<close> leaves, a row whose evidence text is longest. It is the first in scan
  order among the longest when \<open>sort_values\<close> leaves rows of equal length in row order,
  which the default kind of the call does not promise.
\<close>

theorem deduplicate_keeps_longest:
  "(mset (sort_values evidence_len rows) = mset rows \<and>
    sorted_wrt (\<lambda>a b. evidence_len b \<le> evidence_len a) (sort_values evidence_len rows) \<and>
    r \<in> set rows \<longrightarrow>
      (\<exists>kept\<in>set rows.
         filter (\<lambda>x. dedup_key x = dedup_key r) (deduplicate sort_values rows) = [kept] \<and>
         kept = hd (filter (\<lambda>x. dedup_key x = dedup_key r) (sort_values evidence_len rows)) \<and>
         (\<forall>x\<in>set rows. dedup_key x = dedup_key r \<longrightarrow>
            evidence_len x \<le> evidence_len kept))) \<and>
   (mset (sort_values evidence_len rows) = mset rows \<and>
    sorted_wrt (\<lambda>a b. evidence_len b \<le> evidence_len a) (sort_values evidence_len rows) \<and>
    (\<forall>k. filter (\<lambda>y. evidence_len y = k) (sort_values evidence_len rows) =
          filter (\<lambda>y. evidence_len y = k) rows) \<and>
    r \<in> set rows \<longrightarrow>
      (\<exists>i<length rows.
         filter (\<lambda>x. dedup_key x = dedup_key r) (deduplicate sort_values rows) = [rows ! i] \<and>
         (\<forall>j<length rows. dedup_key (rows ! j) = dedup_key r \<longrightarrow>
            evidence_len (rows ! j) < evidence_len (rows ! i) \<or>
            evidence_len (rows ! j) = evidence_len (rows ! i) \<and> i \<le> j)))"
proof (intro conjI impI)
  assume "mset (sort_values evidence_len rows) = mset rows \<and>
    sorted_wrt (\<lambda>a b. evidence_len b \<le> evidence_len a) (sort_values evidence_len rows) \<and>
    r \<in> set rows"
  with deduplicate_longest [where sort_values = sort_values and rows = rows and r = r]
  show "\<exists>kept\<in>set rows.
         filter (\<lambda>x. dedup_key x = dedup_key r) (deduplicate sort_values rows) = [kept] \<and>
         kept = hd (filter (\<lambda>x. dedup_key x = dedup_key r) (sort_values evidence_len rows)) \<and>
         (\<forall>x\<in>set rows. dedup_key x = dedup_key r \<longrightarrow>
            evidence_len x \<le> evidence_len kept)"
    by blast
next
  assume "mset (sort_values evidence_len rows) = mset rows \<and>
    sorted_wrt (\<lambda>a b. evidence_len b \<le> evidence_len a) (sort_values evidence_len rows) \<and>
    (\<forall>k. filter (\<lambda>y. evidence_len y = k) (sort_values evidence_len rows) =
          filter (\<lambda>y. evidence_len y = k) rows) \<and>
    r \<in> set rows"
  with deduplicate_in_row_order [where sort_values = sort_values and rows = rows and r = r]
  show "\<exists>i<length rows.
         filter (\<lambda>x. dedup_key x = dedup_key r) (deduplicate sort_values rows) = [rows ! i] \<and>
         (\<forall>j<length rows. dedup_key (rows ! j) = dedup_key r \<longrightarrow>
            evidence_len (rows ! j) < evidence_len (rows ! i) \<or>
            evidence_len (rows ! j) = evidence_len (rows ! i) \<and> i \<le> j)"
    by blast
qed

lemma ex_one_page_sorted:
  "ex_sort_values evidence_len [ex_row_fagote, ex_row_fagotista]
     = [ex_row_fagote, ex_row_fagotista]"
  "deduplicate ex_sort_values [ex_row_fagote, ex_row_fagotista] = [ex_row_fagote]"
  "dedup_key ex_row_fagotista = dedup_key ex_row_fagote"
  "evidence_len ex_row_fagotista = evidence_len ex_row_fagote"
  by code_simp+

theorem deduplicate_keeps_longest_witness:
  "ex_sort_values evidence_len [ex_row_fagote, ex_row_fagotista]
     = [ex_row_fagote, ex_row_fagotista] \<and>
   ex_row_fagotista \<in> set [ex_row_fagote, ex_row_fagotista] \<and>
   (\<exists>kept\<in>set [ex_row_fagote, ex_row_fagotista].
      filter (\<lambda>x. dedup_key x = dedup_key ex_row_fagotista)
        (deduplicate ex_sort_values [ex_row_fagote, ex_row_fagotista]) = [kept] \<and>
      kept = hd (filter (\<lambda>x. dedup_key x = dedup_key ex_row_fagotista)
                  (ex_sort_values evidence_len [ex_row_fagote, ex_row_fagotista])) \<and>
      evidence_len ex_row_fagotista \<le> evidence_len kept) \<and>
   deduplicate ex_sort_values [ex_row_fagote, ex_row_fagotista] = [ex_row_fagote]"
proof -
  let ?rows = "[ex_row_fagote, ex_row_fagotista]"
  have s: "ex_sort_values evidence_len ?rows = ?rows" by (rule ex_one_page_sorted(1))
  have c: "mset (ex_sort_values evidence_len ?rows) = mset ?rows"
    "sorted_wrt (\<lambda>a b. evidence_len b \<le> evidence_len a) (ex_sort_values evidence_len ?rows)"
    "\<forall>k. filter (\<lambda>y. evidence_len y = k) (ex_sort_values evidence_len ?rows) =
         filter (\<lambda>y. evidence_len y = k) ?rows"
    unfolding s by (simp_all add: ex_one_page_sorted(4))
  have m: "ex_row_fagotista \<in> set ?rows" by simp
  from deduplicate_keeps_longest [of ex_sort_values ?rows ex_row_fagotista] c m
  have "\<exists>kept\<in>set ?rows.
      filter (\<lambda>x. dedup_key x = dedup_key ex_row_fagotista)
        (deduplicate ex_sort_values ?rows) = [kept] \<and>
      kept = hd (filter (\<lambda>x. dedup_key x = dedup_key ex_row_fagotista)
                  (ex_sort_values evidence_len ?rows)) \<and>
      (\<forall>x\<in>set ?rows. dedup_key x = dedup_key ex_row_fagotista \<longrightarrow>
         evidence_len x \<le> evidence_len kept)"
    by blast
  then have "\<exists>kept\<in>set ?rows.
      filter (\<lambda>x. dedup_key x = dedup_key ex_row_fagotista)
        (deduplicate ex_sort_values ?rows) = [kept] \<and>
      kept = hd (filter (\<lambda>x. dedup_key x = dedup_key ex_row_fagotista)
                  (ex_sort_values evidence_len ?rows)) \<and>
      evidence_len ex_row_fagotista \<le> evidence_len kept"
    using m by blast
  with s m ex_one_page_sorted(2) show ?thesis by blast
qed

lemma ex_two_pages_rows:
  "extracted_roles ex_finditer INSTRUMENT_TAXONOMY ex_two_pages
     = Inr [ex_p1_fagote, ex_p1_tuba, ex_p2_fagote, ex_p2_fagotista]"
  "ex_sort_values evidence_len [ex_p1_fagote, ex_p1_tuba, ex_p2_fagote, ex_p2_fagotista]
     = [ex_p2_fagotista, ex_p2_fagote, ex_p1_tuba, ex_p1_fagote]"
  "deduplicate ex_sort_values [ex_p1_fagote, ex_p1_tuba, ex_p2_fagote, ex_p2_fagotista]
     = [ex_p2_fagotista, ex_p1_tuba, ex_p1_fagote]"
  "dedup_key ex_p2_fagotista = dedup_key ex_p2_fagote"
  "evidence_len ex_p2_fagotista = evidence_len ex_p2_fagote"
  "role_match_start_idx ex_p2_fagote = 0"
  "role_match_start_idx ex_p2_fagotista = 9"
  by code_simp+

text \<open>
  Two pages, the shorter first. On page 2 the rows of \<open>fagote\<close> (offset 0) and
  \<open>fagotista\<close> (offset 9) have one role and evidence of one length, and the row of
  \<open>fagote\<close> is the first in scan order. Sorting the four rows by length brings the row
  of \<open>fagotista\<close> before it, and deduplication keeps the row of \<open>fagotista\<close>.
\<close>

theorem deduplicate_tie_not_scan_order:
  "extracted_roles ex_finditer INSTRUMENT_TAXONOMY ex_two_pages
     = Inr [ex_p1_fagote, ex_p1_tuba, ex_p2_fagote, ex_p2_fagotista] \<and>
   dedup_key ex_p2_fagotista = dedup_key ex_p2_fagote \<and>
   evidence_len ex_p2_fagotista = evidence_len ex_p2_fagote \<and>
   role_match_start_idx ex_p2_fagote = 0 \<and> role_match_start_idx ex_p2_fagotista = 9 \<and>
   ex_sort_values evidence_len [ex_p1_fagote, ex_p1_tuba, ex_p2_fagote, ex_p2_fagotista]
     = [ex_p2_fagotista, ex_p2_fagote, ex_p1_tuba, ex_p1_fagote] \<and>
   extract_instruments ex_finditer ex_sort_values INSTRUMENT_TAXONOMY ex_two_pages
     = Inr [ex_p2_fagotista, ex_p1_tuba, ex_p1_fagote]"
  by (simp add: ex_two_pages_rows extract_instruments_def)

end
